theory Spec2Isabelle
  imports Main "HOL-Library.AList" "HOL-Library.Sublist"
begin

section \<open>Exceptions\<close>

text \<open>
  The exceptions that the modelled statements can raise.  All of them are subclasses of
  \<^verbatim>\<open>Exception\<close>; \<^verbatim>\<open>CalledProcessError\<close> is the one that \<^verbatim>\<open>subprocess.run(..., check=True)\<close>
  raises for a non-zero exit status.  A function that can raise returns \<open>exc + 'a\<close>, with
  \<open>Inl e\<close> for the exception \<open>e\<close>.
\<close>

datatype exc =
    ValueError string
  | KeyError string
  | IndexError
  | AttributeError
  | TypeError
  | FileNotFoundError
  | FileExistsError
  | NotADirectoryError
  | IsADirectoryError
  | SameFileError
  | CalledProcessError
  | OSError

section \<open>The format strings of str.format\<close>

text \<open>
  \<^verbatim>\<open>create_project\<close> renders a template with
  \<^verbatim>\<open>template_content.format(project_name=..., author_name=..., author_email=...)\<close>.
  The model follows the parser of format strings in CPython: literal text runs up to a
  brace; a doubled brace is one literal brace; a single \<^verbatim>\<open>}\<close> is an error; a single
  \<^verbatim>\<open>{\<close> opens a replacement field, which is a field name, an optional conversion after
  \<^verbatim>\<open>!\<close> and an optional format specification after \<^verbatim>\<open>:\<close>.  A string is a list of
  characters, and a character is a code point below 256; the decimal digits among these are
  \<^verbatim>\<open>0\<close> to \<^verbatim>\<open>9\<close>.
\<close>

text \<open>
  The field name ends at \<^verbatim>\<open>}\<close>, \<^verbatim>\<open>:\<close> or \<^verbatim>\<open>!\<close>; inside \<^verbatim>\<open>[...]\<close> these
  characters belong to the name (the flag says that the scan is inside brackets); a
  \<^verbatim>\<open>{\<close> outside brackets and the end of the string are errors.  The result is the name, the
  character that ended it and the rest of the string.
\<close>

fun scan_field_name :: "bool \<Rightarrow> string \<Rightarrow> exc + (string \<times> char \<times> string)" where
  "scan_field_name b [] = Inl (ValueError ''expected '}' before end of string'')"
| "scan_field_name True (c # cs) =
     (case scan_field_name (c \<noteq> CHR '']'') cs of
        Inl e \<Rightarrow> Inl e
      | Inr (n, t, r) \<Rightarrow> Inr (c # n, t, r))"
| "scan_field_name False (c # cs) =
     (if c = CHR ''{'' then Inl (ValueError ''unexpected '{' in field name'')
      else if c = CHR ''['' then
        (case scan_field_name True cs of
           Inl e \<Rightarrow> Inl e
         | Inr (n, t, r) \<Rightarrow> Inr (c # n, t, r))
      else if c = CHR ''}'' \<or> c = CHR '':'' \<or> c = CHR ''!'' then Inr ([], c, cs)
      else
        (case scan_field_name False cs of
           Inl e \<Rightarrow> Inl e
         | Inr (n, t, r) \<Rightarrow> Inr (c # n, t, r)))"

text \<open>
  The format specification runs to the \<^verbatim>\<open>}\<close> that closes the field; braces nest, and
  \<open>count\<close> is the number of braces that are open.
\<close>

fun scan_format_spec :: "nat \<Rightarrow> string \<Rightarrow> exc + (string \<times> string)" where
  "scan_format_spec count [] = Inl (ValueError ''unmatched '{' in format spec'')"
| "scan_format_spec count (c # cs) =
     (if c = CHR ''{'' then
        (case scan_format_spec (count + 1) cs of
           Inl e \<Rightarrow> Inl e
         | Inr (sp, r) \<Rightarrow> Inr (c # sp, r))
      else if c = CHR ''}'' then
        (if count - 1 = 0 then Inr ([], cs)
         else (case scan_format_spec (count - 1) cs of
                 Inl e \<Rightarrow> Inl e
               | Inr (sp, r) \<Rightarrow> Inr (c # sp, r)))
      else
        (case scan_format_spec count cs of
           Inl e \<Rightarrow> Inl e
         | Inr (sp, r) \<Rightarrow> Inr (c # sp, r)))"

record field =
  field_name :: string
  conversion :: "char option"
  format_spec :: string

definition parse_format_spec :: "string \<Rightarrow> char option \<Rightarrow> string \<Rightarrow> exc + (field \<times> string)" where
  "parse_format_spec n conv s =
     (case scan_format_spec 1 s of
        Inl e \<Rightarrow> Inl e
      | Inr (sp, r) \<Rightarrow> Inr (\<lparr>field_name = n, conversion = conv, format_spec = sp\<rparr>, r))"

text \<open>\<open>parse_field s\<close> reads one replacement field from \<open>s\<close>, the text after its \<^verbatim>\<open>{\<close>.\<close>

definition parse_field :: "string \<Rightarrow> exc + (field \<times> string)" where
  "parse_field s =
     (case scan_field_name False s of
        Inl e \<Rightarrow> Inl e
      | Inr (n, t, r) \<Rightarrow>
          if t = CHR ''!'' then
            (case r of
               [] \<Rightarrow> Inl (ValueError ''end of string while looking for conversion specifier'')
             | conv # r1 \<Rightarrow>
                 (case r1 of
                    [] \<Rightarrow> parse_format_spec n (Some conv) r1
                  | c # r2 \<Rightarrow>
                      if c = CHR ''}'' then
                        Inr (\<lparr>field_name = n, conversion = Some conv, format_spec = []\<rparr>, r2)
                      else if c \<noteq> CHR '':'' then
                        Inl (ValueError ''expected ':' after conversion specifier'')
                      else parse_format_spec n (Some conv) r2))
          else if t = CHR '':'' then parse_format_spec n None r
          else Inr (\<lparr>field_name = n, conversion = None, format_spec = []\<rparr>, r))"

lemma scan_field_name_length:
  "scan_field_name b s = Inr (n, t, r) \<Longrightarrow> length r < length s"
proof (induction b s arbitrary: n rule: scan_field_name.induct)
  case (1 b)
  then show ?case by simp
next
  case (2 c cs)
  then show ?case by (fastforce split: sum.splits)
next
  case (3 c cs)
  then show ?case by (fastforce split: sum.splits if_splits)
qed

lemma scan_format_spec_length:
  "scan_format_spec k s = Inr (sp, r) \<Longrightarrow> length r < length s"
proof (induction k s arbitrary: sp rule: scan_format_spec.induct)
  case (1 count)
  then show ?case by simp
next
  case (2 count c cs)
  then show ?case by (fastforce split: sum.splits if_splits)
qed

lemma parse_format_spec_length:
  "parse_format_spec n conv s = Inr (f, r) \<Longrightarrow> length r < length s"
  unfolding parse_format_spec_def
  by (auto split: sum.splits dest: scan_format_spec_length)

lemma parse_field_length:
  assumes "parse_field s = Inr (f, r)"
  shows "length r < length s"
proof (cases "scan_field_name False s")
  case (Inl e)
  with assms show ?thesis by (simp add: parse_field_def)
next
  case (Inr x)
  obtain n t r0 where x: "x = (n, t, r0)" by (cases x)
  have l0: "length r0 < length s" using Inr x scan_field_name_length by blast
  have "length r \<le> length r0"
    using assms Inr x
    by (auto simp: parse_field_def split: if_splits list.splits
             dest!: parse_format_spec_length)
  with l0 show ?thesis by simp
qed

text \<open>
  The loop over the format string.  \<open>om\<close> renders one replacement field (\<open>output_markup\<close>
  below); the first error, in reading order, is the result.
\<close>

function do_markup :: "(field \<Rightarrow> exc + string) \<Rightarrow> string \<Rightarrow> exc + string" where
  "do_markup om [] = Inr []"
| "do_markup om (c # cs) =
     (if c = CHR ''{'' \<or> c = CHR ''}'' then
        (case cs of
           [] \<Rightarrow>
             Inl (ValueError (if c = CHR ''}'' then ''Single '}' encountered in format string''
                              else ''Single '{' encountered in format string''))
         | d # ds \<Rightarrow>
             if d = c then
               (case do_markup om ds of Inl e \<Rightarrow> Inl e | Inr res \<Rightarrow> Inr (c # res))
             else if c = CHR ''}'' then
               Inl (ValueError ''Single '}' encountered in format string'')
             else
               (case parse_field cs of
                  Inl e \<Rightarrow> Inl e
                | Inr (f, rest) \<Rightarrow>
                    (case om f of
                       Inl e \<Rightarrow> Inl e
                     | Inr v \<Rightarrow>
                         (case do_markup om rest of
                            Inl e \<Rightarrow> Inl e
                          | Inr res \<Rightarrow> Inr (v @ res)))))
      else
        (case do_markup om cs of Inl e \<Rightarrow> Inl e | Inr res \<Rightarrow> Inr (c # res)))"
  by pat_completeness auto
termination
proof (relation "measure (\<lambda>(om, s). length s)")
  fix om :: "field \<Rightarrow> exc + string" and c x21 :: char and cs x22 y :: string
    and b :: "field \<times> string" and x :: field
  assume "cs = x21 # x22" and p: "parse_field cs = Inr b" and b: "(x, y) = b"
  from p b have "parse_field cs = Inr (x, y)" by simp
  then have "length y < length cs" by (rule parse_field_length)
  then show "((om, y), om, c # cs) \<in> measure (\<lambda>(om, s). length s)" by simp
qed simp_all

text \<open>
  The first part of a field name, up to \<^verbatim>\<open>.\<close> or \<^verbatim>\<open>[\<close>, selects the argument: a
  keyword argument unless it is empty or a decimal number, which index the positional
  arguments.  \<^verbatim>\<open>create_project\<close> passes no positional argument, so every such field
  raises \<^verbatim>\<open>IndexError\<close>.  \<open>PY_SSIZE_T_MAX\<close> is that of a 64-bit build.
\<close>

definition PY_SSIZE_T_MAX :: nat where
  "PY_SSIZE_T_MAX = 2 ^ 63 - 1"

definition digitval :: "char \<Rightarrow> nat option" where
  "digitval c =
     (let n = (of_char c :: nat) in if 48 \<le> n \<and> n \<le> 57 then Some (n - 48) else None)"

fun get_integer_loop :: "nat \<Rightarrow> string \<Rightarrow> exc + nat option" where
  "get_integer_loop accumulator [] = Inr (Some accumulator)"
| "get_integer_loop accumulator (c # cs) =
     (case digitval c of
        None \<Rightarrow> Inr None
      | Some d \<Rightarrow>
          if accumulator > (PY_SSIZE_T_MAX - d) div 10 then
            Inl (ValueError ''Too many decimal digits in format string'')
          else get_integer_loop (accumulator * 10 + d) cs)"

definition get_integer :: "string \<Rightarrow> exc + nat option" where
  "get_integer s = (if s = [] then Inr None else get_integer_loop 0 s)"

definition field_name_split :: "string \<Rightarrow> string \<times> string" where
  "field_name_split n =
     (takeWhile (\<lambda>c. c \<noteq> CHR ''.'' \<and> c \<noteq> CHR ''['') n,
      dropWhile (\<lambda>c. c \<noteq> CHR ''.'' \<and> c \<noteq> CHR ''['') n)"

text \<open>
  What CPython does with an argument beyond inserting it is not code of the program and is
  a parameter of the model.  An object is represented by its \<^verbatim>\<open>__format__\<close> method.
  \<open>py_access lib v rest conv\<close> is the object that the attribute and index accesses \<open>rest\<close>
  and the conversion \<open>conv\<close> make of the string \<open>v\<close>; \<open>py_str_format lib v sp\<close> is
  \<^verbatim>\<open>format(v, sp)\<close> for a string \<open>v\<close> and a non-empty specification \<open>sp\<close>.  With an empty
  specification \<^verbatim>\<open>format(v, "")\<close> is \<open>v\<close> itself.
\<close>

type_synonym pyobj = "string \<Rightarrow> exc + string"

record pylib =
  py_access :: "string \<Rightarrow> string \<Rightarrow> char option \<Rightarrow> exc + pyobj"
  py_str_format :: "string \<Rightarrow> string \<Rightarrow> exc + string"

definition str_obj :: "pylib \<Rightarrow> string \<Rightarrow> pyobj" where
  "str_obj lib v = (\<lambda>sp. if sp = [] then Inr v else py_str_format lib v sp)"

definition get_field_object :: "pylib \<Rightarrow> (string \<times> string) list \<Rightarrow> field \<Rightarrow> exc + pyobj" where
  "get_field_object lib kwargs f =
     (case field_name_split (field_name f) of (first, rest) \<Rightarrow>
        (case get_integer first of
           Inl e \<Rightarrow> Inl e
         | Inr idx \<Rightarrow>
             if first = [] \<or> idx \<noteq> None then Inl IndexError
             else
               (case map_of kwargs first of
                  None \<Rightarrow> Inl (KeyError first)
                | Some v \<Rightarrow>
                    if rest = [] \<and> conversion f = None then Inr (str_obj lib v)
                    else py_access lib v rest (conversion f))))"

text \<open>
  One replacement field: find the object, expand a format specification that contains
  braces (\<open>expand\<close>, one level further down), format the object.
\<close>

definition output_markup ::
  "pylib \<Rightarrow> (string \<times> string) list \<Rightarrow> (string \<Rightarrow> exc + string) \<Rightarrow> field \<Rightarrow> exc + string" where
  "output_markup lib kwargs expand f =
     (case get_field_object lib kwargs f of
        Inl e \<Rightarrow> Inl e
      | Inr obj \<Rightarrow>
          (case (if CHR ''{'' \<in> set (format_spec f) then expand (format_spec f)
                 else Inr (format_spec f)) of
             Inl e \<Rightarrow> Inl e
           | Inr sp \<Rightarrow> obj sp))"

primrec build_string ::
  "pylib \<Rightarrow> (string \<times> string) list \<Rightarrow> nat \<Rightarrow> string \<Rightarrow> exc + string" where
  "build_string lib kwargs 0 s = Inl (ValueError ''Max string recursion exceeded'')"
| "build_string lib kwargs (Suc depth) s =
     do_markup (output_markup lib kwargs (build_string lib kwargs depth)) s"

text \<open>\<^verbatim>\<open>s.format(**kwargs)\<close>: CPython starts with recursion depth 2.\<close>

definition str_format :: "pylib \<Rightarrow> string \<Rightarrow> (string \<times> string) list \<Rightarrow> exc + string" where
  "str_format lib s kwargs = build_string lib kwargs 2 s"

section \<open>The texts of the program\<close>

text \<open>
  The string constants of the source, one literal for each line: the built-in template
  \<^verbatim>\<open>basic\<close>, the two starter files and the default pre-commit configuration.
\<close>

definition get_basic_template :: string where
  \<open>get_basic_template =
    ''\<newline>'' @
    ''\<newline>'' @
    ''[project]\<newline>'' @
    ''name = "{project_name}"\<newline>'' @
    ''version = "0.1.0"\<newline>'' @
    ''description = "A basic Python project"\<newline>'' @
    ''authors = [\<newline>'' @
    ''    {{name = "{author_name}", email = "{author_email}"}}\<newline>'' @
    '']\<newline>'' @
    ''dependencies = []\<newline>'' @
    ''readme = "README.md"\<newline>'' @
    ''requires-python = ">=3.11"\<newline>'' @
    ''\<newline>'' @
    ''[dependency-groups]\<newline>'' @
    ''dev = [\<newline>'' @
    ''    "pytest>=7.0",\<newline>'' @
    ''    "black>=22.0",\<newline>'' @
    ''    "ruff>=0.1.0",\<newline>'' @
    ''    "pre-commit>=2.0.0",\<newline>'' @
    ''    "mypy>=0.910"\<newline>'' @
    '']\<newline>'' @
    ''[[tool.uv.index]]\<newline>'' @
    ''name = "pytorch-cu118"\<newline>'' @
    ''url = "https://download.pytorch.org/whl/cu118"\<newline>'' @
    ''explicit = true\<newline>'' @
    ''\<newline>'' @
    ''### CODE FORMATTING\<newline>'' @
    ''\<newline>'' @
    ''[tool.black]\<newline>'' @
    ''# https://black.readthedocs.io/en/stable/the_black_code_style/current_style.html#line-length\<newline>'' @
    ''line-length = 100\<newline>'' @
    ''# Assume Python 3.11 (see '' @ [CHR 0x60] @ ''ruff'' @ [CHR 0x60] @ '')\<newline>'' @
    ''target-version = ['' @ [CHR 0x27] @ ''py311'' @ [CHR 0x27] @ '']\<newline>'' @
    ''extend-exclude = '' @ [CHR 0x27, CHR 0x27, CHR 0x27] @ ''\<newline>'' @
    ''(\<newline>'' @
    ''  ^/notebooks\<newline>'' @
    ''  | ^/.pytest_cache\<newline>'' @
    ''  | ^/.ruff_cache\<newline>'' @
    '')\<newline>'' @
    [CHR 0x27, CHR 0x27, CHR 0x27] @ ''\<newline>'' @
    ''\<newline>'' @
    ''### CODE STYLE ENFORCEMENT\<newline>'' @
    ''\<newline>'' @
    ''[tool.ruff]\<newline>'' @
    ''fix = true\<newline>'' @
    ''lint.select = [\<newline>'' @
    ''    "A", "B", "C", "D", "E", "F", "G", "I", "N", "Q", "S", "T", "W", "ANN",\<newline>'' @
    ''    "ARG", "BLE", "COM", "DJ", "DTZ", "EM", "ERA", "EXE", "FBT", "ICN", "INP",\<newline>'' @
    ''    "ISC", "NPY", "PD", "PGH", "PIE", "PL", "PT", "PTH", "PYI", "RET", "RSE",\<newline>'' @
    ''    "RUF", "SIM", "SLF", "TCH", "TID", "TRY", "UP", "YTT",\<newline>'' @
    '']\<newline>'' @
    ''lint.ignore = ["D203", "D212", "D400", "D415", "PLR0913", "PLC0415"]\<newline>'' @
    ''exclude = [\<newline>'' @
    ''    ".git",\<newline>'' @
    ''    ".mypy_cache",\<newline>'' @
    ''    ".pytest_cache",\<newline>'' @
    ''    ".ruff_cache",\<newline>'' @
    ''    "build",\<newline>'' @
    ''    "dist",\<newline>'' @
    ''    "tests",\<newline>'' @
    '']\<newline>'' @
    ''# Useful for pre-commit: https://beta.ruff.rs/docs/settings/#force-exclude\<newline>'' @
    ''force-exclude = true\<newline>'' @
    ''# https://black.readthedocs.io/en/stable/the_black_code_style/current_style.html#line-length\<newline>'' @
    ''line-length = 100\<newline>'' @
    ''# Allow unused variables when underscore-prefixed.\<newline>'' @
    ''# dummy-variable-rgx = "^(_+|(_+[a-zA-Z0-9_]*[a-zA-Z0-9]+?))$"\<newline>'' @
    ''# Assume Python 3.11 (see '' @ [CHR 0x60] @ ''black'' @ [CHR 0x60] @ '')\<newline>'' @
    ''target-version = "py311"\<newline>'' @
    ''\<newline>'' @
    ''[tool.ruff.lint.mccabe]\<newline>'' @
    ''max-complexity = 10\<newline>'' @
    ''\<newline>'' @
    ''### TYPE CHECKING\<newline>'' @
    ''\<newline>'' @
    ''[tool.mypy]\<newline>'' @
    ''files = "."\<newline>'' @
    ''ignore_missing_imports = true\<newline>'' @
    ''exclude = ["tests"]\<newline>'' @
    ''\<newline>'' @
    ''### SECURITY\<newline>'' @
    ''\<newline>'' @
    ''# NO CONFIGURATION REQUIRED. INCLUDED IN '' @ [CHR 0x60] @ ''ruff'' @ [CHR 0x60] @ '' (e.g., '' @ [CHR 0x60] @ ''bandit'' @ [CHR 0x60] @ '') AND '' @ [CHR 0x60] @ ''pipenv check'' @ [CHR 0x60] @ ''.\<newline>'' @
    ''\<newline>'' @
    ''### TESTING\<newline>'' @
    ''\<newline>'' @
    ''[tool.pytest.ini_options]\<newline>'' @
    ''addopts = "--cov --cov-fail-under=1 --dist=loadscope -n auto"\<newline>'' @
    ''\<newline>'' @
    ''[tool.coverage.run]\<newline>'' @
    ''source = ["."]\<newline>'' @
    ''\<newline>'' @
    ''[tool.coverage.report]\<newline>'' @
    ''show_missing = true\<newline>'' @
    ''omit = ["*/tests/*"]\<newline>'' @
    ''exclude_lines = [\<newline>'' @
    ''    "pragma: no cover",\<newline>'' @
    ''    "def __repr__",\<newline>'' @
    ''    "raise AssertionError",\<newline>'' @
    ''    "raise NotImplementedError",\<newline>'' @
    ''    "if __name__ == .__main__.:"\<newline>'' @
    '']\<newline>''\<close>

definition main_content :: string where
  \<open>main_content =
    ''from fastapi import FastAPI\<newline>'' @
    ''        \<newline>'' @
    ''\<newline>'' @
    ''app = FastAPI()\<newline>'' @
    ''\<newline>'' @
    ''@app.get("/")\<newline>'' @
    ''async def root():\<newline>'' @
    ''    return {"message": "Hello World"}\<newline>'' @
    ''\<newline>'' @
    ''def main():\<newline>'' @
    ''    import uvicorn\<newline>'' @
    ''    uvicorn.run(app, host="0.0.0.0", port=8000)\<newline>'' @
    ''\<newline>'' @
    ''if __name__ == "__main__":\<newline>'' @
    ''    main()\<newline>''\<close>

definition cli_content :: string where
  \<open>cli_content =
    ''import click\<newline>'' @
    ''\<newline>'' @
    ''\<newline>'' @
    ''@click.command()\<newline>'' @
    ''@click.option('' @ [CHR 0x27] @ ''--name'' @ [CHR 0x27] @ '', default='' @ [CHR 0x27] @ ''World'' @ [CHR 0x27] @ '', help='' @ [CHR 0x27] @ ''Name to greet'' @ [CHR 0x27] @ '')\<newline>'' @
    ''def main(name):\<newline>'' @
    ''    """Simple CLI application"""\<newline>'' @
    ''    click.echo(f'' @ [CHR 0x27] @ ''Hello {name}!'' @ [CHR 0x27] @ '')\<newline>'' @
    ''\<newline>'' @
    ''if __name__ == '' @ [CHR 0x27] @ ''__main__'' @ [CHR 0x27] @ '':\<newline>'' @
    ''    main()\<newline>''\<close>

definition pre_commit_content :: string where
  \<open>pre_commit_content =
    ''\<newline>'' @
    ''repos:\<newline>'' @
    ''  - repo: local\<newline>'' @
    ''    hooks:\<newline>'' @
    ''\<newline>'' @
    ''      ### CODE FORMATTING\<newline>'' @
    ''\<newline>'' @
    ''      - id: black\<newline>'' @
    ''        name: black\<newline>'' @
    ''        stages: [ pre-commit ]\<newline>'' @
    ''        language: system\<newline>'' @
    ''        entry: pipenv run black .\<newline>'' @
    ''        types: [ python ]\<newline>'' @
    ''\<newline>'' @
    ''      ### CODE STYLE ENFORCEMENT\<newline>'' @
    ''\<newline>'' @
    ''      - id: ruff\<newline>'' @
    ''        name: ruff\<newline>'' @
    ''        stages: [ pre-commit ]\<newline>'' @
    ''        language: system\<newline>'' @
    ''        entry: pipenv run ruff check .\<newline>'' @
    ''        types: [ python ]\<newline>'' @
    ''\<newline>'' @
    ''      ### TYPE CHECKING\<newline>'' @
    ''\<newline>'' @
    ''      - id: mypy\<newline>'' @
    ''        name: mypy\<newline>'' @
    ''        stages: [ pre-commit ]\<newline>'' @
    ''        language: system\<newline>'' @
    ''        entry: pipenv run mypy .\<newline>'' @
    ''        types: [ python ]\<newline>'' @
    ''        pass_filenames: false\<newline>'' @
    ''\<newline>'' @
    ''      ### SECURITY\<newline>'' @
    ''\<newline>'' @
    ''      - id: check\<newline>'' @
    ''        name: check\<newline>'' @
    ''        stages: [ pre-push ]\<newline>'' @
    ''        language: system\<newline>'' @
    ''        entry: pipenv check\<newline>'' @
    ''        types: [ python ]\<newline>'' @
    ''\<newline>'' @
    ''      ### TESTING\<newline>'' @
    ''\<newline>'' @
    ''      - id: pytest\<newline>'' @
    ''        name: pytest\<newline>'' @
    ''        stages: [ pre-push ]\<newline>'' @
    ''        language: system\<newline>'' @
    ''        entry: pipenv run pytest\<newline>'' @
    ''        types: [ python ]\<newline>'' @
    ''        pass_filenames: false\<newline>'' @
    ''\<newline>''\<close>

section \<open>Paths and the file system\<close>

text \<open>
  A \<^verbatim>\<open>pathlib.Path\<close> is modelled by the list of its components below the root; a relative
  path is located from the working directory when it is built.  As in \<^verbatim>\<open>pathlib\<close>, empty
  components and \<^verbatim>\<open>.\<close> are dropped, \<^verbatim>\<open>..\<close> is kept as a component, the parent of a
  path is the path without its last component, and joining with an absolute name discards
  the left operand.
\<close>

type_synonym path = "string list"

fun split_slash :: "string \<Rightarrow> string list" where
  "split_slash [] = [[]]"
| "split_slash (c # cs) =
     (if c = CHR ''/'' then [] # split_slash cs
      else (case split_slash cs of
              [] \<Rightarrow> [[c]]
            | n # ns \<Rightarrow> (c # n) # ns))"

definition path_parts :: "string \<Rightarrow> path" where
  "path_parts s = filter (\<lambda>n. n \<noteq> [] \<and> n \<noteq> ''.'') (split_slash s)"

definition is_absolute :: "string \<Rightarrow> bool" where
  "is_absolute s = (case s of [] \<Rightarrow> False | c # cs \<Rightarrow> c = CHR ''/'')"

definition joinpath :: "path \<Rightarrow> string \<Rightarrow> path" where
  "joinpath p s = (if is_absolute s then path_parts s else p @ path_parts s)"

definition basename :: "path \<Rightarrow> path" where
  "basename p = (case p of [] \<Rightarrow> [] | n # ns \<Rightarrow> [last p])"

definition stem :: "string \<Rightarrow> string" where
  "stem name =
     (if CHR ''.'' \<in> set name then
        (let i = length name - length (takeWhile (\<lambda>c. c \<noteq> CHR ''.'') (rev name)) - 1
         in if 0 < i \<and> i < length name - 1 then take i name else name)
      else name)"

text \<open>
  The file system is an association list from the locations of its entries to nodes; its
  order stands for the order in which the operating system lists a directory.  A location
  is the list of names that leads from the root to the entry; the root always exists.
  There are directories and regular files, no symbolic links.
\<close>

datatype node = Dir | File string

type_synonym fs = "(path \<times> node) list"

definition entry_at :: "fs \<Rightarrow> path \<Rightarrow> node option" where
  "entry_at fs q = (if q = [] then Some Dir else map_of fs q)"

text \<open>
  The operating system resolves a path one component at a time, starting at the root.
  Every component is looked up in the location reached so far, which has to be an existing
  directory: a missing one is \<^verbatim>\<open>ENOENT\<close>, a regular file is \<^verbatim>\<open>ENOTDIR\<close>.  The
  component \<^verbatim>\<open>..\<close> leads to the parent of that directory, and the root is its own
  parent; any other component leads to the entry of that name, which need not exist.
\<close>

definition step :: "path \<Rightarrow> string \<Rightarrow> path" where
  "step cur n = (if n = ''..'' then butlast cur else cur @ [n])"

fun walk :: "fs \<Rightarrow> path \<Rightarrow> path \<Rightarrow> exc + path" where
  "walk fs cur [] = Inr cur"
| "walk fs cur (n # ns) =
     (case entry_at fs cur of
        None \<Rightarrow> Inl FileNotFoundError
      | Some (File c) \<Rightarrow> Inl NotADirectoryError
      | Some Dir \<Rightarrow> walk fs (step cur n) ns)"

definition resolve :: "fs \<Rightarrow> path \<Rightarrow> exc + path" where
  "resolve fs p = walk fs [] p"

text \<open>
  \<open>node_at fs p\<close> is what \<^verbatim>\<open>stat\<close> finds at the path \<open>p\<close>.  \<^verbatim>\<open>Path.exists\<close> and
  \<^verbatim>\<open>Path.is_dir\<close> answer \<^verbatim>\<open>False\<close> when \<^verbatim>\<open>stat\<close> fails with \<^verbatim>\<open>ENOENT\<close> or
  \<^verbatim>\<open>ENOTDIR\<close>.
\<close>

definition node_at :: "fs \<Rightarrow> path \<Rightarrow> node option" where
  "node_at fs p = (case resolve fs p of Inl e \<Rightarrow> None | Inr q \<Rightarrow> entry_at fs q)"

definition path_exists :: "fs \<Rightarrow> path \<Rightarrow> bool" where
  "path_exists fs p = (node_at fs p \<noteq> None)"

definition is_dir :: "fs \<Rightarrow> path \<Rightarrow> bool" where
  "is_dir fs p = (node_at fs p = Some Dir)"

definition is_file :: "fs \<Rightarrow> path \<Rightarrow> bool" where
  "is_file fs p = (case node_at fs p of Some (File c) \<Rightarrow> True | _ \<Rightarrow> False)"

definition os_mkdir :: "path \<Rightarrow> fs \<Rightarrow> exc + fs" where
  "os_mkdir p fs =
     (case resolve fs p of
        Inl e \<Rightarrow> Inl e
      | Inr q \<Rightarrow>
          (case entry_at fs q of
             Some n \<Rightarrow> Inl FileExistsError
           | None \<Rightarrow> Inr (AList.update q Dir fs)))"

text \<open>
  \<^verbatim>\<open>Path.mkdir(parents, exist_ok)\<close>, as \<^verbatim>\<open>pathlib\<close> writes it: try \<^verbatim>\<open>os.mkdir\<close>; on
  \<^verbatim>\<open>FileNotFoundError\<close> create the parent (with \<^verbatim>\<open>parents=True, exist_ok=True\<close>) and
  try again without \<^verbatim>\<open>parents\<close>; on any other \<^verbatim>\<open>OSError\<close> re-raise unless \<^verbatim>\<open>exist_ok\<close>
  holds and the path is a directory.  The result is the exception, if one is raised, and
  the file system that the call leaves: the parents that were created stay when the last
  step fails.
\<close>

function pathlib_mkdir :: "bool \<Rightarrow> bool \<Rightarrow> path \<Rightarrow> fs \<Rightarrow> exc option \<times> fs" where
  "pathlib_mkdir parents exist_ok p fs =
     (case os_mkdir p fs of
        Inr fs' \<Rightarrow> (None, fs')
      | Inl e \<Rightarrow>
          if e = FileNotFoundError then
            (if \<not> parents \<or> p = [] then (Some e, fs)
             else (case pathlib_mkdir True True (butlast p) fs of
                     (Some e', fs1) \<Rightarrow> (Some e', fs1)
                   | (None, fs1) \<Rightarrow> pathlib_mkdir False exist_ok p fs1))
          else if \<not> exist_ok \<or> \<not> is_dir fs p then (Some e, fs)
          else (None, fs))"
  by pat_completeness auto
termination
  by (relation "measure (\<lambda>(parents, exist_ok, p, fs). 2 * length p + (if parents then 1 else 0))")
     auto

declare pathlib_mkdir.simps [simp del]

definition read_file :: "fs \<Rightarrow> path \<Rightarrow> exc + string" where
  "read_file fs p =
     (case resolve fs p of
        Inl e \<Rightarrow> Inl e
      | Inr q \<Rightarrow>
          (case entry_at fs q of
             None \<Rightarrow> Inl FileNotFoundError
           | Some Dir \<Rightarrow> Inl IsADirectoryError
           | Some (File c) \<Rightarrow> Inr c))"

text \<open>\<^verbatim>\<open>open(p, "w")\<close> followed by \<^verbatim>\<open>write(content)\<close>: the file is created or replaced.\<close>

definition write_file :: "path \<Rightarrow> string \<Rightarrow> fs \<Rightarrow> exc + fs" where
  "write_file p content fs =
     (case resolve fs p of
        Inl e \<Rightarrow> Inl e
      | Inr q \<Rightarrow>
          (case entry_at fs q of
             Some Dir \<Rightarrow> Inl IsADirectoryError
           | _ \<Rightarrow> Inr (AList.update q (File content) fs)))"

text \<open>
  \<^verbatim>\<open>shutil.rmtree(p)\<close> opens the directory, removes everything below it and then calls
  \<^verbatim>\<open>os.rmdir(p)\<close>, which resolves \<open>p\<close> once more; the root cannot be removed.  The
  result is the exception, if one is raised, and the file system that the call leaves.
\<close>

definition rmtree :: "path \<Rightarrow> fs \<Rightarrow> exc option \<times> fs" where
  "rmtree p fs =
     (case resolve fs p of
        Inl e \<Rightarrow> (Some e, fs)
      | Inr q \<Rightarrow>
          (case entry_at fs q of
             None \<Rightarrow> (Some FileNotFoundError, fs)
           | Some (File c) \<Rightarrow> (Some NotADirectoryError, fs)
           | Some Dir \<Rightarrow>
               (let fs' = filter (\<lambda>(k, n). \<not> strict_prefix q k) fs
                in case resolve fs' p of
                     Inl e \<Rightarrow> (Some e, fs')
                   | Inr q' \<Rightarrow>
                       if q' = [] then (Some OSError, fs')
                       else (None, filter (\<lambda>(k, n). k \<noteq> q') fs'))))"

text \<open>
  \<^verbatim>\<open>shutil.copy(src, dst)\<close>: a destination that is a directory stands for the file of the
  same name in it; copying a file onto itself is refused; then the source is opened for
  reading and the destination for writing.
\<close>

definition samefile :: "fs \<Rightarrow> path \<Rightarrow> path \<Rightarrow> bool" where
  "samefile fs a b =
     (case resolve fs a of
        Inl e \<Rightarrow> False
      | Inr q \<Rightarrow> entry_at fs q \<noteq> None \<and> resolve fs b = Inr q)"

definition shutil_copy :: "path \<Rightarrow> path \<Rightarrow> fs \<Rightarrow> exc + fs" where
  "shutil_copy src dst fs =
     (let dst' = (if is_dir fs dst then dst @ basename src else dst)
      in if samefile fs src dst' then Inl SameFileError
         else (case read_file fs src of
                 Inl e \<Rightarrow> Inl e
               | Inr c \<Rightarrow> write_file dst' c fs))"

text \<open>
  \<^verbatim>\<open>d.glob("*.toml")\<close>: the names in the directory \<open>d\<close> that end in \<^verbatim>\<open>.toml\<close>, files
  and directories alike; nothing when \<open>d\<close> is not a directory.
\<close>

definition glob_toml :: "path \<Rightarrow> fs \<Rightarrow> string list" where
  "glob_toml d fs =
     (case resolve fs d of
        Inl e \<Rightarrow> []
      | Inr q \<Rightarrow>
          if entry_at fs q = Some Dir then
            map last (filter (\<lambda>k. k \<noteq> [] \<and> butlast k = q \<and> suffix ''.toml'' (last k))
                             (remdups (map fst fs)))
          else [])"

section \<open>The program\<close>

text \<open>
  What the program reads from its surroundings: the working directory, the home
  directory, the environment variable \<^verbatim>\<open>USER\<close>, the directory of the script, the
  external command \<^verbatim>\<open>uv init\<close> and the library behind \<^verbatim>\<open>str.format\<close>.  The external
  command is opaque: given the path and the file system it returns the file system it leaves
  and \<open>None\<close> when it exits with status 0, \<^verbatim>\<open>CalledProcessError\<close> when it exits with another
  status, or the exception that \<^verbatim>\<open>subprocess.run\<close> raises when the command cannot be
  started.
\<close>

record world =
  cwd :: path
  home :: path
  env_USER :: "string option"
  script_dir :: path
  uv_init :: "path \<Rightarrow> fs \<Rightarrow> exc option \<times> fs"
  python :: pylib

text \<open>
  Each \<^verbatim>\<open>print\<close> of the source is one message; the constructors carry what the source
  interpolates into the text.
\<close>

datatype msg =
    ErrAlreadyExists path
  | ErrTemplateNotFound string
  | AvailableTemplates "string list"
  | SuccessCreated string string
  | ProjectLocation path
  | NextSteps
  | HintCd string
  | HintUvSync
  | ErrUvInit exc
  | ErrCreatingProject exc
  | CopiedPreCommit
  | WarnPreCommitMissing
  | CreatedAdditionalFiles
  | CreatedCustomTemplate string
  | TemplateHeader string
  | Rule
  | Content string
  | ResetAll
  | ErrDoesNotExist string
  | ResetOne string

datatype cmd = UvInit path

record state =
  files :: fs
  out :: "msg list"
  cmds :: "cmd list"

definition say :: "msg list \<Rightarrow> state \<Rightarrow> state" where
  "say ms s = s\<lparr>out := out s @ ms\<rparr>"

record uv_create_template =
  template_dir :: path

definition default_templates :: "(string \<times> string) list" where
  "default_templates = [(''basic'', get_basic_template)]"

definition template_file_of :: "uv_create_template \<Rightarrow> string \<Rightarrow> path" where
  "template_file_of self template_name = joinpath (template_dir self) (template_name @ ''.toml'')"

fun write_missing_defaults :: "uv_create_template \<Rightarrow> (string \<times> string) list \<Rightarrow> fs \<Rightarrow> exc + fs" where
  "write_missing_defaults self [] fs = Inr fs"
| "write_missing_defaults self ((template_name, template_content) # ts) fs =
     (if \<not> path_exists fs (template_file_of self template_name) then
        (case write_file (template_file_of self template_name) template_content fs of
           Inl e \<Rightarrow> Inl e
         | Inr fs' \<Rightarrow> write_missing_defaults self ts fs')
      else write_missing_defaults self ts fs)"

definition ensure_template_dir :: "uv_create_template \<Rightarrow> state \<Rightarrow> (exc + unit) \<times> state" where
  "ensure_template_dir self s =
     (case pathlib_mkdir False True (template_dir self) (files s) of
        (Some e, fs1) \<Rightarrow> (Inl e, s\<lparr>files := fs1\<rparr>)
      | (None, fs1) \<Rightarrow>
          (case write_missing_defaults self default_templates fs1 of
             Inl e \<Rightarrow> (Inl e, s\<lparr>files := fs1\<rparr>)
           | Inr fs2 \<Rightarrow> (Inr (), s\<lparr>files := fs2\<rparr>)))"

definition init :: "world \<Rightarrow> string option \<Rightarrow> state \<Rightarrow> (exc + uv_create_template) \<times> state" where
  "init w template_dir_arg s =
     (let self = \<lparr>template_dir =
                    (case template_dir_arg of
                       Some (c # cs) \<Rightarrow> joinpath (cwd w) (c # cs)
                     | _ \<Rightarrow> joinpath (home w) ''.uv_templates'')\<rparr>
      in case ensure_template_dir self s of
           (Inl e, s') \<Rightarrow> (Inl e, s')
         | (Inr u, s') \<Rightarrow> (Inr self, s'))"

definition list_templates :: "uv_create_template \<Rightarrow> fs \<Rightarrow> string list" where
  "list_templates self fs = map stem (glob_toml (template_dir self) fs)"

subsection \<open>Defaults of create_project\<close>

text \<open>
  A character is a code point below 256.  On these \<^verbatim>\<open>str.lower\<close> changes the letters
  \<^verbatim>\<open>A\<close> to \<^verbatim>\<open>Z\<close> and the capital letters of Latin-1, which are the code points
  \<^verbatim>\<open>C0\<close> to \<^verbatim>\<open>DE\<close> without the multiplication sign \<^verbatim>\<open>D7\<close>; each becomes the
  character 32 code points above it, and every other character stays.
\<close>

definition upper_case :: string where
  "upper_case =
     ''ABCDEFGHIJKLMNOPQRSTUVWXYZ'' @
     [CHR 0xC0, CHR 0xC1, CHR 0xC2, CHR 0xC3, CHR 0xC4, CHR 0xC5, CHR 0xC6, CHR 0xC7,
      CHR 0xC8, CHR 0xC9, CHR 0xCA, CHR 0xCB, CHR 0xCC, CHR 0xCD, CHR 0xCE, CHR 0xCF,
      CHR 0xD0, CHR 0xD1, CHR 0xD2, CHR 0xD3, CHR 0xD4, CHR 0xD5, CHR 0xD6,
      CHR 0xD8, CHR 0xD9, CHR 0xDA, CHR 0xDB, CHR 0xDC, CHR 0xDD, CHR 0xDE]"

definition lower_case :: string where
  "lower_case =
     ''abcdefghijklmnopqrstuvwxyz'' @
     [CHR 0xE0, CHR 0xE1, CHR 0xE2, CHR 0xE3, CHR 0xE4, CHR 0xE5, CHR 0xE6, CHR 0xE7,
      CHR 0xE8, CHR 0xE9, CHR 0xEA, CHR 0xEB, CHR 0xEC, CHR 0xED, CHR 0xEE, CHR 0xEF,
      CHR 0xF0, CHR 0xF1, CHR 0xF2, CHR 0xF3, CHR 0xF4, CHR 0xF5, CHR 0xF6,
      CHR 0xF8, CHR 0xF9, CHR 0xFA, CHR 0xFB, CHR 0xFC, CHR 0xFD, CHR 0xFE]"

definition lower_char :: "char \<Rightarrow> char" where
  "lower_char c = (case map_of (zip upper_case lower_case) c of Some l \<Rightarrow> l | None \<Rightarrow> c)"

definition str_lower :: "string \<Rightarrow> string" where
  "str_lower s = map lower_char s"

definition replace_space_dot :: "string \<Rightarrow> string" where
  "replace_space_dot s = map (\<lambda>c. if c = CHR '' '' then CHR ''.'' else c) s"

definition resolve_author_name :: "world \<Rightarrow> string option \<Rightarrow> string" where
  "resolve_author_name w author_name =
     (case author_name of
        Some (c # cs) \<Rightarrow> c # cs
      | _ \<Rightarrow> (case env_USER w of Some u \<Rightarrow> u | None \<Rightarrow> ''Your Name''))"

definition resolve_author_email :: "string option \<Rightarrow> string \<Rightarrow> string" where
  "resolve_author_email author_email author_name =
     (case author_email of
        Some (c # cs) \<Rightarrow> c # cs
      | _ \<Rightarrow> replace_space_dot (str_lower author_name) @ ''@example.com'')"

definition resolve_project_path :: "world \<Rightarrow> string \<Rightarrow> string option \<Rightarrow> path" where
  "resolve_project_path w project_name target_dir =
     (case target_dir of
        Some (c # cs) \<Rightarrow> joinpath (cwd w) (c # cs)
      | _ \<Rightarrow> joinpath (cwd w) project_name)"

definition template_kwargs :: "string \<Rightarrow> string \<Rightarrow> string \<Rightarrow> (string \<times> string) list" where
  "template_kwargs project_name author_name author_email =
     [(''project_name'', project_name),
      (''author_name'', author_name),
      (''author_email'', author_email)]"

subsection \<open>create_additional_files\<close>

definition starter_file :: "path \<Rightarrow> string \<Rightarrow> string \<Rightarrow> path" where
  "starter_file project_path project_name file_name =
     joinpath (joinpath (joinpath project_path ''src'') project_name) file_name"

definition write_starter :: "path \<Rightarrow> string \<Rightarrow> string \<Rightarrow> fs \<Rightarrow> exc + fs" where
  "write_starter project_path template project_name fs =
     (if template = ''web'' then
        write_file (starter_file project_path project_name ''main.py'') main_content fs
      else if template = ''cli'' then
        write_file (starter_file project_path project_name ''cli.py'') cli_content fs
      else Inr fs)"

definition write_pre_commit :: "world \<Rightarrow> path \<Rightarrow> state \<Rightarrow> (exc + unit) \<times> state" where
  "write_pre_commit w project_path s =
     (let pre_commit_config = joinpath (script_dir w) ''.pre-commit-config.yaml''
      in if path_exists (files s) pre_commit_config then
           (case shutil_copy pre_commit_config
                   (joinpath project_path ''.pre-commit-config.yaml'') (files s) of
              Inl e \<Rightarrow> (Inl e, s)
            | Inr fs' \<Rightarrow> (Inr (), say [CopiedPreCommit] (s\<lparr>files := fs'\<rparr>)))
         else
           (case write_file (joinpath project_path ''.pre-commit-config.yaml'')
                   pre_commit_content (files s) of
              Inl e \<Rightarrow> (Inl e, say [WarnPreCommitMissing] s)
            | Inr fs' \<Rightarrow> (Inr (), say [WarnPreCommitMissing] (s\<lparr>files := fs'\<rparr>))))"

definition create_additional_files ::
  "world \<Rightarrow> path \<Rightarrow> string \<Rightarrow> string \<Rightarrow> state \<Rightarrow> (exc + unit) \<times> state" where
  "create_additional_files w project_path template project_name s =
     (case write_starter project_path template project_name (files s) of
        Inl e \<Rightarrow> (Inl e, s)
      | Inr fs1 \<Rightarrow>
          (case write_pre_commit w project_path (s\<lparr>files := fs1\<rparr>) of
             (Inl e, s2) \<Rightarrow> (Inl e, s2)
           | (Inr u, s2) \<Rightarrow> (Inr (), say [CreatedAdditionalFiles] s2)))"

subsection \<open>create_project\<close>

text \<open>
  The statements of the \<^verbatim>\<open>try\<close> block after the bootstrap command: load the template,
  render it, write the manifest, create the additional files.  \<open>Inl e\<close> is the exception
  \<open>e\<close> raised inside the block.
\<close>

definition render_and_write ::
  "world \<Rightarrow> uv_create_template \<Rightarrow> string \<Rightarrow> string \<Rightarrow> path \<Rightarrow> string \<Rightarrow> string \<Rightarrow> state
     \<Rightarrow> (exc + bool) \<times> state" where
  "render_and_write w self project_name template project_path author_name author_email s =
     (case read_file (files s) (template_file_of self template) of
        Inl e \<Rightarrow> (Inl e, s)
      | Inr template_content \<Rightarrow>
          (case str_format (python w) template_content
                  (template_kwargs project_name author_name author_email) of
             Inl e \<Rightarrow> (Inl e, s)
           | Inr rendered \<Rightarrow>
               (case write_file (joinpath project_path ''pyproject.toml'') rendered (files s) of
                  Inl e \<Rightarrow> (Inl e, s)
                | Inr fs3 \<Rightarrow>
                    (case create_additional_files w project_path template project_name
                            (s\<lparr>files := fs3\<rparr>) of
                       (Inl e, s4) \<Rightarrow> (Inl e, s4)
                     | (Inr u, s4) \<Rightarrow>
                         (Inr True,
                          say [SuccessCreated project_name template,
                               ProjectLocation project_path,
                               NextSteps, HintCd project_name, HintUvSync] s4)))))"

definition try_block ::
  "world \<Rightarrow> uv_create_template \<Rightarrow> string \<Rightarrow> string \<Rightarrow> path \<Rightarrow> string \<Rightarrow> string \<Rightarrow> state
     \<Rightarrow> (exc + bool) \<times> state" where
  "try_block w self project_name template project_path author_name author_email s =
     (case uv_init w project_path (files s) of
        (Some e, fs') \<Rightarrow> (Inl e, s\<lparr>files := fs', cmds := cmds s @ [UvInit project_path]\<rparr>)
      | (None, fs') \<Rightarrow>
          (let s2 = s\<lparr>files := fs', cmds := cmds s @ [UvInit project_path]\<rparr>
           in if \<not> path_exists (files s2) (template_file_of self template) then
                (let s3 = say [ErrTemplateNotFound template,
                               AvailableTemplates (list_templates self (files s2))] s2
                 in case rmtree project_path (files s3) of
                      (Some e, fs'') \<Rightarrow> (Inl e, s3\<lparr>files := fs''\<rparr>)
                    | (None, fs'') \<Rightarrow> (Inr False, s3\<lparr>files := fs''\<rparr>))
              else render_and_write w self project_name template project_path
                     author_name author_email s2))"

text \<open>
  The two \<^verbatim>\<open>except\<close> clauses: both report, remove the project directory if it exists
  and return \<^verbatim>\<open>False\<close>.  An exception of \<^verbatim>\<open>shutil.rmtree\<close> inside a handler leaves
  \<^verbatim>\<open>create_project\<close>.
\<close>

definition handle_exception :: "exc \<Rightarrow> path \<Rightarrow> state \<Rightarrow> (exc + bool) \<times> state" where
  "handle_exception e project_path s =
     (let s1 = say [if e = CalledProcessError then ErrUvInit e else ErrCreatingProject e] s
      in if path_exists (files s1) project_path then
           (case rmtree project_path (files s1) of
              (Some e', fs') \<Rightarrow> (Inl e', s1\<lparr>files := fs'\<rparr>)
            | (None, fs') \<Rightarrow> (Inr False, s1\<lparr>files := fs'\<rparr>))
         else (Inr False, s1))"

definition create_project ::
  "world \<Rightarrow> uv_create_template \<Rightarrow> string \<Rightarrow> string \<Rightarrow> string option \<Rightarrow> string option
     \<Rightarrow> string option \<Rightarrow> state \<Rightarrow> (exc + bool) \<times> state" where
  "create_project w self project_name template target_dir author_name author_email s =
     (let author_name' = resolve_author_name w author_name;
          author_email' = resolve_author_email author_email author_name';
          project_path = resolve_project_path w project_name target_dir
      in if path_exists (files s) project_path then
           (Inr False, say [ErrAlreadyExists project_path] s)
         else
           (case pathlib_mkdir True False project_path (files s) of
              (Some e, fs1) \<Rightarrow> (Inl e, s\<lparr>files := fs1\<rparr>)
            | (None, fs1) \<Rightarrow>
                (case try_block w self project_name template project_path
                        author_name' author_email' (s\<lparr>files := fs1\<rparr>) of
                   (Inl e, s') \<Rightarrow> handle_exception e project_path s'
                 | (Inr b, s') \<Rightarrow> (Inr b, s'))))"

subsection \<open>The template store\<close>

definition create_custom_template ::
  "uv_create_template \<Rightarrow> string \<Rightarrow> string \<Rightarrow> state \<Rightarrow> (exc + unit) \<times> state" where
  "create_custom_template self template_name template_content s =
     (case write_file (template_file_of self template_name) template_content (files s) of
        Inl e \<Rightarrow> (Inl e, s)
      | Inr fs' \<Rightarrow> (Inr (), say [CreatedCustomTemplate template_name] (s\<lparr>files := fs'\<rparr>)))"

definition show_template :: "uv_create_template \<Rightarrow> string \<Rightarrow> state \<Rightarrow> (exc + unit) \<times> state" where
  "show_template self template_name s =
     (if \<not> path_exists (files s) (template_file_of self template_name) then
        (Inr (), say [ErrTemplateNotFound template_name] s)
      else (case read_file (files s) (template_file_of self template_name) of
              Inl e \<Rightarrow> (Inl e, s)
            | Inr content \<Rightarrow>
                (Inr (), say [TemplateHeader template_name, Rule, Content content] s)))"

text \<open>
  \<^verbatim>\<open>reset_default_template\<close> for a name other than \<^verbatim>\<open>"all"\<close>: the part of the function
  after its first \<^verbatim>\<open>if\<close>.
\<close>

definition reset_one :: "uv_create_template \<Rightarrow> string \<Rightarrow> state \<Rightarrow> (exc + unit) \<times> state" where
  "reset_one self template_name s =
     (case map_of default_templates template_name of
        None \<Rightarrow> (Inr (), say [ErrDoesNotExist template_name] s)
      | Some body \<Rightarrow>
          (case write_file (template_file_of self template_name) body (files s) of
             Inl e \<Rightarrow> (Inl e, s)
           | Inr fs' \<Rightarrow> (Inr (), say [ResetOne template_name] (s\<lparr>files := fs'\<rparr>))))"

fun reset_each :: "uv_create_template \<Rightarrow> string list \<Rightarrow> state \<Rightarrow> (exc + unit) \<times> state" where
  "reset_each self [] s = (Inr (), s)"
| "reset_each self (name # names) s =
     (case reset_one self name s of
        (Inl e, s') \<Rightarrow> (Inl e, s')
      | (Inr u, s') \<Rightarrow> reset_each self names s')"

text \<open>
  With \<^verbatim>\<open>"all"\<close> the source calls itself for every built-in name.  No built-in name is
  \<^verbatim>\<open>"all"\<close>, so each of these calls runs the second part of the function, \<open>reset_one\<close>.
\<close>

definition reset_default_template ::
  "uv_create_template \<Rightarrow> string \<Rightarrow> state \<Rightarrow> (exc + unit) \<times> state" where
  "reset_default_template self template_name s =
     (if template_name = ''all'' then
        (case reset_each self (map fst default_templates) s of
           (Inl e, s') \<Rightarrow> (Inl e, s')
         | (Inr u, s') \<Rightarrow> (Inr (), say [ResetAll] s'))
      else reset_one self template_name s)"


section \<open>Notions used in the statements\<close>

text \<open>A text without braces: \<^verbatim>\<open>str.format\<close> has nothing to replace in it.\<close>

definition plain :: "string \<Rightarrow> bool" where
  "plain s = list_all (\<lambda>c. c \<noteq> CHR ''{'' \<and> c \<noteq> CHR ''}'') s"

text \<open>
  A field name that is a plain name: it has none of the characters that end a field name
  or start an attribute or index access.
\<close>

definition simple_name :: "string \<Rightarrow> bool" where
  "simple_name n =
     list_all (\<lambda>c. c \<noteq> CHR ''{'' \<and> c \<noteq> CHR ''}'' \<and> c \<noteq> CHR ''['' \<and> c \<noteq> CHR ''.'' \<and>
                    c \<noteq> CHR '':'' \<and> c \<noteq> CHR ''!'') n"

text \<open>
  The manifest that the built-in template becomes: the template with the three markers
  replaced and each doubled brace written once.  \<open>basic_seg0\<close> to \<open>basic_seg5\<close> are the
  texts between the markers and the doubled braces.
\<close>

definition basic_seg0 :: string where
  \<open>basic_seg0 =
    ''\<newline>'' @
    ''\<newline>'' @
    ''[project]\<newline>'' @
    ''name = "''\<close>

definition basic_seg1 :: string where
  \<open>basic_seg1 =
    ''"\<newline>'' @
    ''version = "0.1.0"\<newline>'' @
    ''description = "A basic Python project"\<newline>'' @
    ''authors = [\<newline>'' @
    ''    ''\<close>

definition basic_seg2 :: string where
  \<open>basic_seg2 =
    ''name = "''\<close>

definition basic_seg3 :: string where
  \<open>basic_seg3 =
    ''", email = "''\<close>

definition basic_seg4 :: string where
  \<open>basic_seg4 =
    ''"''\<close>

definition basic_seg5 :: string where
  \<open>basic_seg5 =
    ''\<newline>'' @
    '']\<newline>'' @
    ''dependencies = []\<newline>'' @
    ''readme = "README.md"\<newline>'' @
    ''requires-python = ">=3.11"\<newline>'' @
    ''\<newline>'' @
    ''[dependency-groups]\<newline>'' @
    ''dev = [\<newline>'' @
    ''    "pytest>=7.0",\<newline>'' @
    ''    "black>=22.0",\<newline>'' @
    ''    "ruff>=0.1.0",\<newline>'' @
    ''    "pre-commit>=2.0.0",\<newline>'' @
    ''    "mypy>=0.910"\<newline>'' @
    '']\<newline>'' @
    ''[[tool.uv.index]]\<newline>'' @
    ''name = "pytorch-cu118"\<newline>'' @
    ''url = "https://download.pytorch.org/whl/cu118"\<newline>'' @
    ''explicit = true\<newline>'' @
    ''\<newline>'' @
    ''### CODE FORMATTING\<newline>'' @
    ''\<newline>'' @
    ''[tool.black]\<newline>'' @
    ''# https://black.readthedocs.io/en/stable/the_black_code_style/current_style.html#line-length\<newline>'' @
    ''line-length = 100\<newline>'' @
    ''# Assume Python 3.11 (see '' @ [CHR 0x60] @ ''ruff'' @ [CHR 0x60] @ '')\<newline>'' @
    ''target-version = ['' @ [CHR 0x27] @ ''py311'' @ [CHR 0x27] @ '']\<newline>'' @
    ''extend-exclude = '' @ [CHR 0x27, CHR 0x27, CHR 0x27] @ ''\<newline>'' @
    ''(\<newline>'' @
    ''  ^/notebooks\<newline>'' @
    ''  | ^/.pytest_cache\<newline>'' @
    ''  | ^/.ruff_cache\<newline>'' @
    '')\<newline>'' @
    [CHR 0x27, CHR 0x27, CHR 0x27] @ ''\<newline>'' @
    ''\<newline>'' @
    ''### CODE STYLE ENFORCEMENT\<newline>'' @
    ''\<newline>'' @
    ''[tool.ruff]\<newline>'' @
    ''fix = true\<newline>'' @
    ''lint.select = [\<newline>'' @
    ''    "A", "B", "C", "D", "E", "F", "G", "I", "N", "Q", "S", "T", "W", "ANN",\<newline>'' @
    ''    "ARG", "BLE", "COM", "DJ", "DTZ", "EM", "ERA", "EXE", "FBT", "ICN", "INP",\<newline>'' @
    ''    "ISC", "NPY", "PD", "PGH", "PIE", "PL", "PT", "PTH", "PYI", "RET", "RSE",\<newline>'' @
    ''    "RUF", "SIM", "SLF", "TCH", "TID", "TRY", "UP", "YTT",\<newline>'' @
    '']\<newline>'' @
    ''lint.ignore = ["D203", "D212", "D400", "D415", "PLR0913", "PLC0415"]\<newline>'' @
    ''exclude = [\<newline>'' @
    ''    ".git",\<newline>'' @
    ''    ".mypy_cache",\<newline>'' @
    ''    ".pytest_cache",\<newline>'' @
    ''    ".ruff_cache",\<newline>'' @
    ''    "build",\<newline>'' @
    ''    "dist",\<newline>'' @
    ''    "tests",\<newline>'' @
    '']\<newline>'' @
    ''# Useful for pre-commit: https://beta.ruff.rs/docs/settings/#force-exclude\<newline>'' @
    ''force-exclude = true\<newline>'' @
    ''# https://black.readthedocs.io/en/stable/the_black_code_style/current_style.html#line-length\<newline>'' @
    ''line-length = 100\<newline>'' @
    ''# Allow unused variables when underscore-prefixed.\<newline>'' @
    ''# dummy-variable-rgx = "^(_+|(_+[a-zA-Z0-9_]*[a-zA-Z0-9]+?))$"\<newline>'' @
    ''# Assume Python 3.11 (see '' @ [CHR 0x60] @ ''black'' @ [CHR 0x60] @ '')\<newline>'' @
    ''target-version = "py311"\<newline>'' @
    ''\<newline>'' @
    ''[tool.ruff.lint.mccabe]\<newline>'' @
    ''max-complexity = 10\<newline>'' @
    ''\<newline>'' @
    ''### TYPE CHECKING\<newline>'' @
    ''\<newline>'' @
    ''[tool.mypy]\<newline>'' @
    ''files = "."\<newline>'' @
    ''ignore_missing_imports = true\<newline>'' @
    ''exclude = ["tests"]\<newline>'' @
    ''\<newline>'' @
    ''### SECURITY\<newline>'' @
    ''\<newline>'' @
    ''# NO CONFIGURATION REQUIRED. INCLUDED IN '' @ [CHR 0x60] @ ''ruff'' @ [CHR 0x60] @ '' (e.g., '' @ [CHR 0x60] @ ''bandit'' @ [CHR 0x60] @ '') AND '' @ [CHR 0x60] @ ''pipenv check'' @ [CHR 0x60] @ ''.\<newline>'' @
    ''\<newline>'' @
    ''### TESTING\<newline>'' @
    ''\<newline>'' @
    ''[tool.pytest.ini_options]\<newline>'' @
    ''addopts = "--cov --cov-fail-under=1 --dist=loadscope -n auto"\<newline>'' @
    ''\<newline>'' @
    ''[tool.coverage.run]\<newline>'' @
    ''source = ["."]\<newline>'' @
    ''\<newline>'' @
    ''[tool.coverage.report]\<newline>'' @
    ''show_missing = true\<newline>'' @
    ''omit = ["*/tests/*"]\<newline>'' @
    ''exclude_lines = [\<newline>'' @
    ''    "pragma: no cover",\<newline>'' @
    ''    "def __repr__",\<newline>'' @
    ''    "raise AssertionError",\<newline>'' @
    ''    "raise NotImplementedError",\<newline>'' @
    ''    "if __name__ == .__main__.:"\<newline>'' @
    '']\<newline>''\<close>


definition basic_manifest :: "string \<Rightarrow> string \<Rightarrow> string \<Rightarrow> string" where
  "basic_manifest project_name author_name author_email =
     basic_seg0 @ project_name @ basic_seg1 @ ''{'' @ basic_seg2 @ author_name @ basic_seg3 @
     author_email @ basic_seg4 @ ''}'' @ basic_seg5"


text \<open>
  The locations that the resolution of a path passes through, each of which has to be a
  directory, and the location that it arrives at.  Both are read off the path alone.
\<close>

fun trail :: "path \<Rightarrow> path \<Rightarrow> path list" where
  "trail cur [] = []"
| "trail cur (n # ns) = cur # trail (step cur n) ns"

fun arrival :: "path \<Rightarrow> path \<Rightarrow> path" where
  "arrival cur [] = cur"
| "arrival cur (n # ns) = arrival (step cur n) ns"

definition passable :: "fs \<Rightarrow> path \<Rightarrow> bool" where
  "passable fs p = list_all (\<lambda>d. entry_at fs d = Some Dir) (trail [] p)"

text \<open>Two file systems with the same directories resolve every path alike.\<close>

definition same_dirs :: "fs \<Rightarrow> fs \<Rightarrow> bool" where
  "same_dirs fs fs' = (\<forall>k. (entry_at fs k = Some Dir) = (entry_at fs' k = Some Dir))"

text \<open>
  A path is clear of a location when its resolution passes neither through the location
  nor through anything below it.
\<close>

definition clear_of :: "path \<Rightarrow> path \<Rightarrow> bool" where
  "clear_of q p = (q \<noteq> [] \<and> list_all (\<lambda>d. \<not> prefix q d) (trail [] p))"

text \<open>A sequence of writes to templates of the store, as \<^verbatim>\<open>create_custom_template\<close> makes them.\<close>

fun run_writes :: "uv_create_template \<Rightarrow> (string \<times> string) list \<Rightarrow> state \<Rightarrow> state" where
  "run_writes self [] s = s"
| "run_writes self ((name, body) # ws) s =
     run_writes self ws (snd (create_custom_template self name body s))"

subsection \<open>An example world\<close>

text \<open>
  A world for the concrete runs below: the bootstrap command succeeds and creates
  \<^verbatim>\<open>src\<close> and a package directory in the project; in \<open>failing_world\<close> it exits with a
  non-zero status.  The store holds the built-in template and two custom ones.  The
  templates of these runs have plain fields only, for which \<^verbatim>\<open>str.format\<close> inserts the
  argument and asks nothing of the library; the library of the example world raises for
  every attribute or index access, conversion and format specification.
\<close>

definition example_lib :: pylib where
  "example_lib =
     \<lparr>py_access = (\<lambda>v rest conv. Inl AttributeError),
      py_str_format = (\<lambda>v sp. Inl (ValueError ''Invalid format specifier''))\<rparr>"

definition example_world :: world where
  "example_world =
     \<lparr>cwd = [''work''], home = [''home''], env_USER = Some ''Ada L'',
      script_dir = [''tool''],
      uv_init = (\<lambda>p fs. (None, snd (pathlib_mkdir True True (p @ ''src'' # basename p) fs))),
      python = example_lib\<rparr>"

definition failing_world :: world where
  "failing_world = example_world\<lparr>uv_init := (\<lambda>p fs. (Some CalledProcessError, fs))\<rparr>"

definition example_self :: uv_create_template where
  "example_self = \<lparr>template_dir = [''home'', ''.uv_templates'']\<rparr>"

definition example_state :: state where
  \<open>example_state =
     \<lparr>files =
        [([''work''], Dir),
         ([''home''], Dir),
         ([''home'', ''.uv_templates''], Dir),
         ([''home'', ''.uv_templates'', ''basic.toml''], File get_basic_template),
         ([''home'', ''.uv_templates'', ''web.toml''], File ''name = "{project_name}"''),
         ([''home'', ''.uv_templates'', ''licensed.toml''],
          File ''name = "{project_name}", license = "{license}"'')],
      out = [], cmds = []\<rparr>\<close>


section \<open>Lemmas\<close>

subsection \<open>Rendering\<close>

lemma do_markup_plain_append:
  "plain l \<Longrightarrow>
   do_markup om (l @ r) = (case do_markup om r of Inl e \<Rightarrow> Inl e | Inr res \<Rightarrow> Inr (l @ res))"
  by (induction l) (auto simp: plain_def split: sum.splits)

lemma do_markup_plain: "plain l \<Longrightarrow> do_markup om l = Inr l"
  using do_markup_plain_append [of l om "[]"] by simp

lemma str_format_plain: "plain l \<Longrightarrow> str_format lib l kwargs = Inr l"
  by (simp add: str_format_def numeral_2_eq_2 do_markup_plain)







lemma scan_field_name_simple:
  "simple_name n \<Longrightarrow> scan_field_name False (n @ CHR ''}'' # r) = Inr (n, CHR ''}'', r)"
  unfolding simple_name_def list_all_iff
  by (induction n) simp_all

lemma parse_field_simple:
  "simple_name n \<Longrightarrow>
   parse_field (n @ CHR ''}'' # r) =
     Inr (\<lparr>field_name = n, conversion = None, format_spec = []\<rparr>, r)"
  by (simp add: parse_field_def scan_field_name_simple)

lemma do_markup_simple_field:
  assumes "simple_name n"
  shows "do_markup om (CHR ''{'' # n @ CHR ''}'' # r) =
     (case om \<lparr>field_name = n, conversion = None, format_spec = []\<rparr> of
        Inl e \<Rightarrow> Inl e
      | Inr v \<Rightarrow> (case do_markup om r of Inl e \<Rightarrow> Inl e | Inr res \<Rightarrow> Inr (v @ res)))"
proof (cases n)
  case Nil
  then show ?thesis using parse_field_simple [OF assms, of r] by simp
next
  case (Cons x xs)
  with assms have "x \<noteq> CHR ''{''" by (simp add: simple_name_def)
  with Cons show ?thesis using parse_field_simple [OF assms, of r] by simp
qed

lemma field_name_split_simple: "simple_name n \<Longrightarrow> field_name_split n = (n, [])"
  by (simp add: simple_name_def list_all_iff field_name_split_def takeWhile_eq_all_conv
        dropWhile_eq_Nil_conv)

lemma output_markup_unknown:
  assumes "simple_name n" and "map_of kwargs n = None"
  shows "\<exists>e. output_markup lib kwargs expand
               \<lparr>field_name = n, conversion = None, format_spec = []\<rparr> = Inl e"
proof (cases "get_integer n")
  case (Inl e)
  then show ?thesis
    using assms by (simp add: output_markup_def get_field_object_def field_name_split_simple)
next
  case (Inr idx)
  then show ?thesis
    using assms by (simp add: output_markup_def get_field_object_def field_name_split_simple)
qed

lemma output_markup_known:
  assumes "simple_name n" and "n \<noteq> []" and "get_integer n = Inr None"
    and "map_of kwargs n = Some v"
  shows "output_markup lib kwargs expand
           \<lparr>field_name = n, conversion = None, format_spec = []\<rparr> = Inr v"
  using assms
  by (simp add: output_markup_def get_field_object_def field_name_split_simple str_obj_def)

lemma get_integer_project_name: "get_integer ''project_name'' = Inr None"
  by (simp add: get_integer_def digitval_def)

lemma get_integer_author_name: "get_integer ''author_name'' = Inr None"
  by (simp add: get_integer_def digitval_def)

lemma get_integer_author_email: "get_integer ''author_email'' = Inr None"
  by (simp add: get_integer_def digitval_def)

lemma plain_basic_seg0: "plain basic_seg0" by (simp add: plain_def basic_seg0_def)
lemma plain_basic_seg1: "plain basic_seg1" by (simp add: plain_def basic_seg1_def)
lemma plain_basic_seg2: "plain basic_seg2" by (simp add: plain_def basic_seg2_def)
lemma plain_basic_seg3: "plain basic_seg3" by (simp add: plain_def basic_seg3_def)
lemma plain_basic_seg4: "plain basic_seg4" by (simp add: plain_def basic_seg4_def)

lemma plain_basic_seg5: "plain basic_seg5"
  unfolding plain_def basic_seg5_def list_all_append by simp

lemma get_basic_template_segments:
  "get_basic_template =
     basic_seg0 @ ''{project_name}'' @ basic_seg1 @ ''{{'' @ basic_seg2 @ ''{author_name}'' @
     basic_seg3 @ ''{author_email}'' @ basic_seg4 @ ''}}'' @ basic_seg5"
  by (simp add: get_basic_template_def basic_seg0_def basic_seg1_def basic_seg2_def
        basic_seg3_def basic_seg4_def basic_seg5_def)

lemma output_markup_project_name:
  "output_markup lib (template_kwargs pn an ae) expand
     \<lparr>field_name = ''project_name'', conversion = None, format_spec = []\<rparr> = Inr pn"
  by (rule output_markup_known)
     (simp_all add: simple_name_def get_integer_project_name template_kwargs_def)

lemma output_markup_author_name:
  "output_markup lib (template_kwargs pn an ae) expand
     \<lparr>field_name = ''author_name'', conversion = None, format_spec = []\<rparr> = Inr an"
  by (rule output_markup_known)
     (simp_all add: simple_name_def get_integer_author_name template_kwargs_def)

lemma output_markup_author_email:
  "output_markup lib (template_kwargs pn an ae) expand
     \<lparr>field_name = ''author_email'', conversion = None, format_spec = []\<rparr> = Inr ae"
  by (rule output_markup_known)
     (simp_all add: simple_name_def get_integer_author_email template_kwargs_def)

lemma do_markup_open_brace:
  "do_markup om (''{{'' @ r) =
     (case do_markup om r of Inl e \<Rightarrow> Inl e | Inr res \<Rightarrow> Inr (''{'' @ res))"
  by (simp split: sum.splits)

lemma do_markup_close_brace:
  "do_markup om (''}}'' @ r) =
     (case do_markup om r of Inl e \<Rightarrow> Inl e | Inr res \<Rightarrow> Inr (''}'' @ res))"
  by (simp split: sum.splits)

lemma do_markup_project_name:
  "do_markup (output_markup lib (template_kwargs pn an ae) expand) (''{project_name}'' @ r) =
     (case do_markup (output_markup lib (template_kwargs pn an ae) expand) r of
        Inl e \<Rightarrow> Inl e | Inr res \<Rightarrow> Inr (pn @ res))"
  using do_markup_simple_field [of "''project_name''"
          "output_markup lib (template_kwargs pn an ae) expand" r]
  by (simp add: simple_name_def output_markup_project_name)

lemma do_markup_author_name:
  "do_markup (output_markup lib (template_kwargs pn an ae) expand) (''{author_name}'' @ r) =
     (case do_markup (output_markup lib (template_kwargs pn an ae) expand) r of
        Inl e \<Rightarrow> Inl e | Inr res \<Rightarrow> Inr (an @ res))"
  using do_markup_simple_field [of "''author_name''"
          "output_markup lib (template_kwargs pn an ae) expand" r]
  by (simp add: simple_name_def output_markup_author_name)

lemma do_markup_author_email:
  "do_markup (output_markup lib (template_kwargs pn an ae) expand) (''{author_email}'' @ r) =
     (case do_markup (output_markup lib (template_kwargs pn an ae) expand) r of
        Inl e \<Rightarrow> Inl e | Inr res \<Rightarrow> Inr (ae @ res))"
  using do_markup_simple_field [of "''author_email''"
          "output_markup lib (template_kwargs pn an ae) expand" r]
  by (simp add: simple_name_def output_markup_author_email)

lemma render_basic_template:
  "str_format lib get_basic_template (template_kwargs pn an ae) = Inr (basic_manifest pn an ae)"
  unfolding str_format_def numeral_2_eq_2 build_string.simps get_basic_template_segments
    basic_manifest_def
  by (simp only: do_markup_plain_append [OF plain_basic_seg0]
        do_markup_plain_append [OF plain_basic_seg1]
        do_markup_plain_append [OF plain_basic_seg2]
        do_markup_plain_append [OF plain_basic_seg3]
        do_markup_plain_append [OF plain_basic_seg4]
        do_markup_plain [OF plain_basic_seg5]
        do_markup_project_name do_markup_author_name do_markup_author_email
        do_markup_open_brace do_markup_close_brace sum.case)


subsection \<open>Resolution\<close>

lemma walk_Inr_iff:
  "walk fs cur p = Inr q \<longleftrightarrow>
     list_all (\<lambda>d. entry_at fs d = Some Dir) (trail cur p) \<and> q = arrival cur p"
  by (induction p arbitrary: cur) (auto split: option.splits node.splits)

lemma resolve_Inr_iff: "resolve fs p = Inr q \<longleftrightarrow> passable fs p \<and> q = arrival [] p"
  by (simp add: resolve_def passable_def walk_Inr_iff)

lemma resolve_passable: "passable fs p \<Longrightarrow> resolve fs p = Inr (arrival [] p)"
  by (simp add: resolve_Inr_iff)

lemma resolve_not_passable: "\<not> passable fs p \<Longrightarrow> \<exists>e. resolve fs p = Inl e"
  by (cases "resolve fs p") (auto simp: resolve_Inr_iff)

lemma node_at_alt:
  "node_at fs p = (if passable fs p then entry_at fs (arrival [] p) else None)"
proof (cases "passable fs p")
  case True
  then show ?thesis by (simp add: node_at_def resolve_passable)
next
  case False
  from resolve_not_passable [OF False] obtain e where "resolve fs p = Inl e" ..
  with False show ?thesis by (simp add: node_at_def)
qed

lemma trail_append: "trail cur (p @ r) = trail cur p @ trail (arrival cur p) r"
  by (induction p arbitrary: cur) simp_all

lemma arrival_append: "arrival cur (p @ r) = arrival (arrival cur p) r"
  by (induction p arbitrary: cur) simp_all

lemma passable_snoc: "passable fs (p @ [n]) = is_dir fs p"
  by (auto simp: passable_def trail_append is_dir_def node_at_alt)

lemma arrival_snoc: "n \<noteq> ''..'' \<Longrightarrow> arrival [] (p @ [n]) = arrival [] p @ [n]"
  by (simp add: arrival_append step_def)

lemma entry_at_root: "entry_at fs [] = Some Dir"
  by (simp add: entry_at_def)

lemma node_at_root: "node_at fs [] = Some Dir"
  by (simp add: node_at_alt passable_def entry_at_root)

lemma same_dirs_refl: "same_dirs fs fs"
  by (simp add: same_dirs_def)

lemma same_dirs_trans: "same_dirs a b \<Longrightarrow> same_dirs b c \<Longrightarrow> same_dirs a c"
  by (simp add: same_dirs_def)

lemma same_dirs_passable: "same_dirs fs fs' \<Longrightarrow> passable fs' p = passable fs p"
  by (simp add: same_dirs_def passable_def)

lemma same_dirs_is_dir: "same_dirs fs fs' \<Longrightarrow> is_dir fs' p = is_dir fs p"
  by (simp add: is_dir_def node_at_alt same_dirs_passable) (simp add: same_dirs_def)

lemma entry_at_update:
  "k \<noteq> [] \<Longrightarrow> entry_at (AList.update k v fs) x = (if x = k then Some v else entry_at fs x)"
  by (simp add: entry_at_def update_conv')

lemma map_of_filter_key:
  "map_of (filter (\<lambda>(q, n). P q) fs) k = (if P k then map_of fs k else None)"
  by (induction fs) auto

lemma entry_at_filter:
  "entry_at (filter (\<lambda>(k, n). P k) fs) x =
     (if x = [] then Some Dir else if P x then entry_at fs x else None)"
  by (simp add: entry_at_def map_of_filter_key)

subsection \<open>Reading and writing\<close>

lemma read_file_Inr_iff: "read_file fs p = Inr c \<longleftrightarrow> node_at fs p = Some (File c)"
  by (auto simp: read_file_def node_at_def split: sum.splits option.splits node.splits)

lemma write_file_Inr_iff:
  "write_file p c fs = Inr fs' \<longleftrightarrow>
     passable fs p \<and> entry_at fs (arrival [] p) \<noteq> Some Dir \<and>
     fs' = AList.update (arrival [] p) (File c) fs"
proof (cases "passable fs p")
  case True
  then show ?thesis
    by (auto simp: write_file_def resolve_passable split: option.splits node.splits)
next
  case False
  from resolve_not_passable [OF False] obtain e where "resolve fs p = Inl e" ..
  with False show ?thesis by (simp add: write_file_def)
qed

lemma write_file_same_dirs:
  assumes "write_file p c fs = Inr fs'"
  shows "same_dirs fs fs'"
proof -
  from assms have k: "entry_at fs (arrival [] p) \<noteq> Some Dir"
    and fs': "fs' = AList.update (arrival [] p) (File c) fs"
    by (simp_all add: write_file_Inr_iff)
  from k have "arrival [] p \<noteq> []" by (auto simp: entry_at_root)
  with k fs' show ?thesis by (auto simp: same_dirs_def entry_at_update)
qed

lemma write_file_is_dir: "write_file q c fs = Inr fs' \<Longrightarrow> is_dir fs' x = is_dir fs x"
  by (rule same_dirs_is_dir) (rule write_file_same_dirs)

lemma write_file_node_at:
  assumes "write_file p c fs = Inr fs'"
  shows "node_at fs' x =
           (if passable fs x \<and> arrival [] x = arrival [] p then Some (File c)
            else node_at fs x)"
proof -
  from assms have k: "entry_at fs (arrival [] p) \<noteq> Some Dir"
    and fs': "fs' = AList.update (arrival [] p) (File c) fs"
    by (simp_all add: write_file_Inr_iff)
  from k have ne: "arrival [] p \<noteq> []" by (auto simp: entry_at_root)
  have "passable fs' x = passable fs x"
    by (rule same_dirs_passable) (rule write_file_same_dirs [OF assms])
  with ne fs' show ?thesis by (simp add: node_at_alt entry_at_update)
qed

lemma write_file_parent: "write_file (p @ [n]) c fs = Inr fs' \<Longrightarrow> is_dir fs p"
  by (simp add: write_file_Inr_iff passable_snoc)

lemma write_file_ok:
  assumes "is_dir fs d" and "\<not> is_dir fs (d @ [n])"
  shows "write_file (d @ [n]) c fs = Inr (AList.update (arrival [] (d @ [n])) (File c) fs)"
  using assms by (simp add: write_file_Inr_iff passable_snoc) (simp add: is_dir_def node_at_alt passable_snoc)

subsection \<open>Creating directories\<close>

lemma os_mkdir_Inr_iff:
  "os_mkdir p fs = Inr fs' \<longleftrightarrow>
     passable fs p \<and> entry_at fs (arrival [] p) = None \<and>
     fs' = AList.update (arrival [] p) Dir fs"
proof (cases "passable fs p")
  case True
  then show ?thesis
    by (auto simp: os_mkdir_def resolve_passable split: option.splits)
next
  case False
  from resolve_not_passable [OF False] obtain e where "resolve fs p = Inl e" ..
  with False show ?thesis by (simp add: os_mkdir_def)
qed

lemma prefix_snoc_new: "prefix q (cur @ [n]) \<Longrightarrow> \<not> prefix q cur \<Longrightarrow> q = cur @ [n]"
  by (auto simp: prefix_snoc)

lemma prefix_butlastD: "prefix q (butlast cur) \<Longrightarrow> prefix q cur"
  by (metis prefixeq_butlast prefix_order.trans)

lemma prefix_step: "prefix q (step cur n) \<Longrightarrow> \<not> prefix q cur \<Longrightarrow> step cur n = q"
  by (auto simp: step_def dest: prefix_butlastD prefix_snoc_new split: if_splits)

lemma trail_clear:
  "\<not> prefix q cur \<Longrightarrow> q \<notin> set (trail cur p) \<Longrightarrow> d \<in> set (trail cur p) \<Longrightarrow> \<not> prefix q d"
proof (induction p arbitrary: cur)
  case Nil
  then show ?case by simp
next
  case (Cons n ns)
  show ?case
  proof (cases "prefix q (step cur n)")
    case False
    with Cons show ?thesis by auto
  next
    case True
    from True Cons.prems(1) have s: "step cur n = q" by (rule prefix_step)
    show ?thesis
    proof (cases ns)
      case Nil
      with Cons.prems show ?thesis by auto
    next
      case (Cons m ms)
      with s \<open>q \<notin> set (trail cur (n # ns))\<close> show ?thesis by simp
    qed
  qed
qed

lemma os_mkdir_clear:
  assumes "os_mkdir p fs = Inr fs'"
  shows "clear_of (arrival [] p) p"
proof -
  let ?q = "arrival [] p"
  from assms have pa: "passable fs p" and ab: "entry_at fs ?q = None"
    by (simp_all add: os_mkdir_Inr_iff)
  from ab have ne: "?q \<noteq> []" by (auto simp: entry_at_root)
  from pa ab have ni: "?q \<notin> set (trail [] p)"
    by (auto simp: passable_def list_all_iff)
  from ne have "\<not> prefix ?q []" by simp
  from trail_clear [OF this ni] ne show ?thesis
    by (auto simp: clear_of_def list_all_iff)
qed

lemma os_mkdir_is_dir:
  assumes "os_mkdir p fs = Inr fs'"
  shows "is_dir fs' p"
proof -
  let ?q = "arrival [] p"
  from assms have pa: "passable fs p" and ab: "entry_at fs ?q = None"
    and fs': "fs' = AList.update ?q Dir fs"
    by (simp_all add: os_mkdir_Inr_iff)
  from ab have ne: "?q \<noteq> []" by (auto simp: entry_at_root)
  from pa ne fs' have "passable fs' p"
    by (auto simp: passable_def list_all_iff entry_at_update)
  with ne fs' show ?thesis by (simp add: is_dir_def node_at_alt entry_at_update)
qed

lemma pathlib_mkdir_plain:
  assumes "pathlib_mkdir False False p fs = (None, fs1)"
  shows "os_mkdir p fs = Inr fs1"
proof (cases "os_mkdir p fs")
  case (Inl e)
  with assms show ?thesis by (simp add: pathlib_mkdir.simps [of False] split: if_splits)
next
  case (Inr fs')
  with assms show ?thesis by (simp add: pathlib_mkdir.simps [of False])
qed

lemma pathlib_mkdir_os_mkdir:
  assumes "pathlib_mkdir True False p fs = (None, fs1)"
  shows "\<exists>fs0. os_mkdir p fs0 = Inr fs1"
proof (cases "os_mkdir p fs")
  case (Inr fs')
  with assms show ?thesis by (auto simp: pathlib_mkdir.simps [of True False p fs])
next
  case (Inl e)
  obtain x fs0 where pm: "pathlib_mkdir True True (butlast p) fs = (x, fs0)"
    by (cases "pathlib_mkdir True True (butlast p) fs")
  from assms Inl pm have "pathlib_mkdir False False p fs0 = (None, fs1)"
    by (cases x) (simp_all add: pathlib_mkdir.simps [of True False p fs] split: if_splits)
  then have "os_mkdir p fs0 = Inr fs1" by (rule pathlib_mkdir_plain)
  then show ?thesis ..
qed

lemma pathlib_mkdir_created:
  assumes "pathlib_mkdir True False p fs = (None, fs1)"
  shows "clear_of (arrival [] p) p \<and> is_dir fs1 p"
proof -
  from pathlib_mkdir_os_mkdir [OF assms] obtain fs0 where "os_mkdir p fs0 = Inr fs1" ..
  then show ?thesis by (simp add: os_mkdir_clear os_mkdir_is_dir)
qed

subsection \<open>Removing a tree\<close>

lemma filter_filter_prefix:
  "filter (\<lambda>(k, n). k \<noteq> q) (filter (\<lambda>(k, n). \<not> strict_prefix q k) fs) =
     filter (\<lambda>(k, n). \<not> prefix q k) fs"
  by (induction fs) (auto simp: strict_prefix_def)

lemma passable_filter:
  assumes "clear_of q p" and "passable fs p"
    and "\<And>k. P k \<or> prefix q k"
  shows "passable (filter (\<lambda>(k, n). P k) fs) p"
proof -
  have "entry_at (filter (\<lambda>(k, n). P k) fs) d = Some Dir" if d: "d \<in> set (trail [] p)" for d
  proof -
    from assms(1) d have "\<not> prefix q d" by (simp add: clear_of_def list_all_iff)
    with assms(3) [of d] have "P d" by simp
    moreover from assms(2) d have "entry_at fs d = Some Dir"
      by (simp add: passable_def list_all_iff)
    ultimately show ?thesis by (simp add: entry_at_filter)
  qed
  then show ?thesis by (simp add: passable_def list_all_iff)
qed

lemma rmtree_ok:
  assumes "is_dir fs p" and "clear_of (arrival [] p) p"
  shows "rmtree p fs = (None, filter (\<lambda>(k, n). \<not> prefix (arrival [] p) k) fs)"
proof -
  let ?q = "arrival [] p"
  let ?fs' = "filter (\<lambda>(k, n). \<not> strict_prefix ?q k) fs"
  from assms(1) have pa: "passable fs p" and d: "entry_at fs ?q = Some Dir"
    by (simp_all add: is_dir_def node_at_alt split: if_splits)
  from assms(2) have ne: "?q \<noteq> []" by (simp add: clear_of_def)
  have "passable ?fs' p"
    by (rule passable_filter [OF assms(2) pa]) (auto simp: strict_prefix_def)
  then have r: "resolve ?fs' p = Inr ?q" by (rule resolve_passable)
  have e: "filter (\<lambda>(k, n). k \<noteq> ?q) ?fs' = filter (\<lambda>(k, n). \<not> prefix ?q k) fs"
    by (rule filter_filter_prefix)
  from pa d ne r e show ?thesis
    by (simp add: rmtree_def resolve_passable Let_def del: filter_filter)
qed

lemma removed_absent:
  assumes "clear_of (arrival [] p) p"
  shows "node_at (filter (\<lambda>(k, n). \<not> prefix (arrival [] p) k) fs) p = None"
  using assms by (simp add: node_at_alt entry_at_filter clear_of_def)

lemma rmtree_absent: "node_at fs p = None \<Longrightarrow> \<exists>e. rmtree p fs = (Some e, fs)"
  by (cases "resolve fs p") (auto simp: rmtree_def node_at_def)

subsection \<open>Paths of the program\<close>

lemma joinpath_pyproject: "joinpath p ''pyproject.toml'' = p @ [''pyproject.toml'']"
  by (simp add: joinpath_def is_absolute_def path_parts_def)

lemma joinpath_pre_commit:
  "joinpath p ''.pre-commit-config.yaml'' = p @ [''.pre-commit-config.yaml'']"
  by (simp add: joinpath_def is_absolute_def path_parts_def)


lemma joinpath_main_py: "joinpath p ''main.py'' = p @ [''main.py'']"
  by (simp add: joinpath_def is_absolute_def path_parts_def)

lemma joinpath_cli_py: "joinpath p ''cli.py'' = p @ [''cli.py'']"
  by (simp add: joinpath_def is_absolute_def path_parts_def)

lemma template_file_of_basic:
  "template_file_of self ''basic'' = template_dir self @ [''basic.toml'']"
  by (simp add: template_file_of_def joinpath_def is_absolute_def path_parts_def)


lemma basename_snoc: "basename (d @ [n]) = [n]"
  by (cases d) (simp_all add: basename_def)

lemma write_file_node_at_same:
  "write_file p c fs = Inr fs' \<Longrightarrow> node_at fs' p = Some (File c)"
  by (frule write_file_node_at [where x = p]) (simp add: write_file_Inr_iff)

lemma write_file_node_at_other:
  "write_file p c fs = Inr fs' \<Longrightarrow> arrival [] x \<noteq> arrival [] p \<Longrightarrow> node_at fs' x = node_at fs x"
  by (simp add: write_file_node_at)

lemma arrival_neq:
  "n \<noteq> m \<Longrightarrow> n \<noteq> ''..'' \<Longrightarrow> m \<noteq> ''..'' \<Longrightarrow> arrival [] (d @ [n]) \<noteq> arrival [] (e @ [m])"
  by (simp add: arrival_snoc)

lemma shutil_copy_Inr:
  "shutil_copy src dst fs = Inr fs' \<Longrightarrow>
     \<exists>c. write_file (if is_dir fs dst then dst @ basename src else dst) c fs = Inr fs'"
  by (auto simp: shutil_copy_def Let_def split: if_splits sum.splits)

lemma shutil_copy_is_dir:
  "shutil_copy src dst fs = Inr fs' \<Longrightarrow> is_dir fs' q = is_dir fs q"
  by (drule shutil_copy_Inr) (auto simp: write_file_is_dir)

lemma is_dir_not_is_file: "is_dir fs p \<Longrightarrow> \<not> is_file fs p"
  by (simp add: is_dir_def is_file_def)

lemma not_is_file_cases: "\<not> is_file fs p \<Longrightarrow> node_at fs p = None \<or> is_dir fs p"
  by (auto simp: is_file_def is_dir_def split: option.splits node.splits)

lemma files_say: "files (say ms s) = files s"
  by (simp add: say_def)

subsection \<open>The handlers\<close>

lemma handle_exception_rollback:
  assumes "\<not> is_file (files s) p" and "clear_of (arrival [] p) p"
  shows "\<exists>s'. handle_exception e p s = (Inr False, s') \<and> node_at (files s') p = None \<and>
           out s' = out s @ [if e = CalledProcessError then ErrUvInit e else ErrCreatingProject e] \<and>
           cmds s' = cmds s"
proof -
  from not_is_file_cases [OF assms(1)] show ?thesis
  proof
    assume "node_at (files s) p = None"
    then show ?thesis
      by (simp add: handle_exception_def Let_def path_exists_def say_def)
  next
    assume d: "is_dir (files s) p"
    then have ex: "path_exists (files s) p" by (simp add: path_exists_def is_dir_def)
    from rmtree_ok [OF d assms(2)] ex removed_absent [OF assms(2), of "files s"]
    show ?thesis
      by (simp add: handle_exception_def Let_def say_def)
  qed
qed

lemma handle_exception_not_True: "handle_exception e p s \<noteq> (Inr True, s')"
  by (auto simp: handle_exception_def Let_def split: option.splits prod.splits)

subsection \<open>The statements of the try block\<close>

lemma write_starter_is_dir:
  "write_starter p t pn fs = Inr fs' \<Longrightarrow> is_dir fs' q = is_dir fs q"
  by (auto simp: write_starter_def write_file_is_dir split: if_splits)

lemma write_pre_commit_is_dir:
  assumes "write_pre_commit w p s = (r, s')"
  shows "is_dir (files s') q = is_dir (files s) q"
proof (cases "path_exists (files s) (script_dir w @ [''.pre-commit-config.yaml''])")
  case True
  show ?thesis
  proof (cases "shutil_copy (script_dir w @ [''.pre-commit-config.yaml''])
                  (p @ [''.pre-commit-config.yaml'']) (files s)")
    case (Inl e)
    with True assms show ?thesis
      by (auto simp: write_pre_commit_def Let_def joinpath_pre_commit)
  next
    case (Inr fs')
    from shutil_copy_is_dir [OF Inr, of q] True Inr assms show ?thesis
      by (auto simp: write_pre_commit_def Let_def joinpath_pre_commit files_say)
  qed
next
  case False
  show ?thesis
  proof (cases "write_file (p @ [''.pre-commit-config.yaml'']) pre_commit_content (files s)")
    case (Inl e)
    with False assms show ?thesis
      by (auto simp: write_pre_commit_def Let_def joinpath_pre_commit files_say)
  next
    case (Inr fs')
    from write_file_is_dir [OF Inr, of q] False Inr assms show ?thesis
      by (auto simp: write_pre_commit_def Let_def joinpath_pre_commit files_say)
  qed
qed

lemma create_additional_files_is_dir:
  assumes "create_additional_files w p t pn s = (r, s')"
  shows "is_dir (files s') q = is_dir (files s) q"
proof (cases "write_starter p t pn (files s)")
  case (Inl e)
  with assms show ?thesis by (auto simp: create_additional_files_def)
next
  case (Inr fs1)
  obtain r2 s2 where wp: "write_pre_commit w p (s\<lparr>files := fs1\<rparr>) = (r2, s2)"
    by (cases "write_pre_commit w p (s\<lparr>files := fs1\<rparr>)")
  from write_pre_commit_is_dir [OF wp, of q] write_starter_is_dir [OF Inr, of q]
  have d: "is_dir (files s2) q = is_dir (files s) q" by simp
  from assms Inr wp have "files s' = files s2"
    by (cases r2) (auto simp: create_additional_files_def files_say)
  with d show ?thesis by simp
qed

lemma render_and_write_exception:
  assumes "render_and_write w self pn t p an ae s = (Inl e, s')"
    and "\<not> is_file (files s) p"
  shows "\<not> is_file (files s') p"
proof (cases "read_file (files s) (template_file_of self t)")
  case (Inl e1)
  with assms show ?thesis by (simp add: render_and_write_def)
next
  case c: (Inr content)
  show ?thesis
  proof (cases "str_format (python w) content (template_kwargs pn an ae)")
    case (Inl e2)
    with assms c show ?thesis by (simp add: render_and_write_def)
  next
    case r: (Inr rendered)
    show ?thesis
    proof (cases "write_file (p @ [''pyproject.toml'']) rendered (files s)")
      case (Inl e3)
      with assms c r show ?thesis by (simp add: render_and_write_def joinpath_pyproject)
    next
      case f: (Inr fs3)
      from write_file_parent [OF f] have "is_dir (files s) p" .
      then have d3: "is_dir fs3 p" using write_file_is_dir [OF f] by simp
      obtain r4 s4 where ca: "create_additional_files w p t pn (s\<lparr>files := fs3\<rparr>) = (r4, s4)"
        by (cases "create_additional_files w p t pn (s\<lparr>files := fs3\<rparr>)")
      from create_additional_files_is_dir [OF ca, of p] d3 have d4: "is_dir (files s4) p"
        by simp
      from assms(1) c r f ca have "s' = s4"
        by (cases r4) (simp_all add: render_and_write_def joinpath_pyproject)
      with d4 show ?thesis by (simp add: is_dir_not_is_file)
    qed
  qed
qed

lemma render_and_write_not_False:
  "render_and_write w self pn t p an ae s \<noteq> (Inr False, s')"
  by (auto simp: render_and_write_def split: sum.splits prod.splits)

lemma try_block_cases:
  assumes "\<not> is_file (snd (uv_init w p (files s))) p" and "clear_of (arrival [] p) p"
    and "try_block w self pn t p an ae s = (r, s')"
  shows "(\<exists>e. r = Inl e \<and> \<not> is_file (files s') p) \<or>
         (r = Inr False \<and> node_at (files s') p = None) \<or> r = Inr True"
proof (cases "uv_init w p (files s)")
  case (Pair x fs2)
  with assms(1) have nf: "\<not> is_file fs2 p" by simp
  show ?thesis
  proof (cases x)
    case (Some e)
    with Pair assms(3) nf show ?thesis by (auto simp: try_block_def)
  next
    case None
    let ?s2 = "s\<lparr>files := fs2, cmds := cmds s @ [UvInit p]\<rparr>"
    show ?thesis
    proof (cases "path_exists fs2 (template_file_of self t)")
      case False
      from not_is_file_cases [OF nf] show ?thesis
      proof
        assume "node_at fs2 p = None"
        from rmtree_absent [OF this] obtain e where "rmtree p fs2 = (Some e, fs2)" ..
        with Pair None False assms(3) nf show ?thesis
          by (auto simp: try_block_def Let_def files_say)
      next
        assume d: "is_dir fs2 p"
        from rmtree_ok [OF d assms(2)] removed_absent [OF assms(2), of fs2]
          Pair None False assms(3)
        show ?thesis by (auto simp: try_block_def Let_def files_say)
      qed
    next
      case True
      with Pair None assms(3)
      have rw: "render_and_write w self pn t p an ae ?s2 = (r, s')"
        by (simp add: try_block_def Let_def)
      show ?thesis
      proof (cases r)
        case (Inl e)
        with rw nf render_and_write_exception [of w self pn t p an ae ?s2 e s']
        show ?thesis by simp
      next
        case (Inr b)
        with rw render_and_write_not_False [of w self pn t p an ae ?s2 s']
        show ?thesis by (cases b) auto
      qed
    qed
  qed
qed

subsection \<open>Every failure after the directory was created rolls back\<close>

lemma create_project_rollback:
  assumes "\<not> path_exists (files s) (resolve_project_path w pn td)"
    and "pathlib_mkdir True False (resolve_project_path w pn td) (files s) = (None, fs1)"
    and "\<not> is_file (snd (uv_init w (resolve_project_path w pn td) fs1))
             (resolve_project_path w pn td)"
  shows "\<exists>b s'. create_project w self pn t td a e s = (Inr b, s') \<and>
           (\<not> b \<longrightarrow> node_at (files s') (resolve_project_path w pn td) = None)"
proof -
  let ?p = "resolve_project_path w pn td"
  let ?an = "resolve_author_name w a"
  let ?ae = "resolve_author_email e ?an"
  from pathlib_mkdir_created [OF assms(2)] have cl: "clear_of (arrival [] ?p) ?p" ..
  obtain r s1 where tb: "try_block w self pn t ?p ?an ?ae (s\<lparr>files := fs1\<rparr>) = (r, s1)"
    by (cases "try_block w self pn t ?p ?an ?ae (s\<lparr>files := fs1\<rparr>)")
  have cp: "create_project w self pn t td a e s =
              (case r of Inl x \<Rightarrow> handle_exception x ?p s1 | Inr b \<Rightarrow> (Inr b, s1))"
    using assms(1,2) tb by (simp add: create_project_def Let_def split: sum.splits)
  from try_block_cases [OF _ cl tb] assms(3)
  consider (exc) x where "r = Inl x" "\<not> is_file (files s1) ?p"
    | (no) "r = Inr False" "node_at (files s1) ?p = None"
    | (yes) "r = Inr True"
    by auto
  then show ?thesis
  proof cases
    case exc
    from handle_exception_rollback [OF exc(2) cl, of x] exc(1) cp show ?thesis by auto
  next
    case no
    with cp show ?thesis by auto
  next
    case yes
    with cp show ?thesis by auto
  qed
qed

subsection \<open>What a successful run did\<close>

lemma write_pre_commit_Inr:
  assumes "write_pre_commit w p s = (Inr u, s')"
  shows "\<exists>d c. write_file (d @ [''.pre-commit-config.yaml'']) c (files s) = Inr (files s')"
proof (cases "path_exists (files s) (script_dir w @ [''.pre-commit-config.yaml''])")
  case True
  with assms obtain fs' where c: "shutil_copy (script_dir w @ [''.pre-commit-config.yaml''])
      (p @ [''.pre-commit-config.yaml'']) (files s) = Inr fs'" and f: "files s' = fs'"
    by (auto simp: write_pre_commit_def Let_def joinpath_pre_commit files_say split: sum.splits)
  show ?thesis
  proof (cases "is_dir (files s) (p @ [''.pre-commit-config.yaml''])")
    case d: True
    with shutil_copy_Inr [OF c] f obtain c' where
      "write_file ((p @ [''.pre-commit-config.yaml'']) @ [''.pre-commit-config.yaml'']) c'
         (files s) = Inr (files s')"
      by (auto simp: basename_snoc)
    then show ?thesis by blast
  next
    case d: False
    with shutil_copy_Inr [OF c] f obtain c' where
      "write_file (p @ [''.pre-commit-config.yaml'']) c' (files s) = Inr (files s')"
      by auto
    then show ?thesis by blast
  qed
next
  case False
  with assms obtain fs' where
    "write_file (p @ [''.pre-commit-config.yaml'']) pre_commit_content (files s) = Inr fs'"
    "files s' = fs'"
    by (auto simp: write_pre_commit_def Let_def joinpath_pre_commit files_say split: sum.splits)
  then show ?thesis by blast
qed

lemma create_additional_files_Inr:
  assumes "create_additional_files w p t pn s = (Inr u, s')"
  shows "\<exists>fs1 d c. write_starter p t pn (files s) = Inr fs1 \<and>
           write_file (d @ [''.pre-commit-config.yaml'']) c fs1 = Inr (files s')"
proof (cases "write_starter p t pn (files s)")
  case (Inl e)
  with assms show ?thesis by (simp add: create_additional_files_def)
next
  case (Inr fs1)
  obtain r2 s2 where wp: "write_pre_commit w p (s\<lparr>files := fs1\<rparr>) = (r2, s2)"
    by (cases "write_pre_commit w p (s\<lparr>files := fs1\<rparr>)")
  have "\<exists>u2. r2 = Inr u2 \<and> files s' = files s2"
  proof (cases r2)
    case (Inl e)
    with assms Inr wp show ?thesis by (simp add: create_additional_files_def)
  next
    case r: (Inr u2)
    with assms Inr wp have "s' = say [CreatedAdditionalFiles] s2"
      by (simp add: create_additional_files_def)
    with r show ?thesis by (simp add: files_say)
  qed
  then obtain u2 where r2: "r2 = Inr u2" and s': "files s' = files s2" by blast
  from write_pre_commit_Inr [of w p "s\<lparr>files := fs1\<rparr>" u2 s2] wp r2
  obtain d c where "write_file (d @ [''.pre-commit-config.yaml'']) c fs1 = Inr (files s2)"
    by auto
  with Inr s' show ?thesis by auto
qed

lemma render_and_write_True:
  assumes "render_and_write w self pn t p an ae s = (Inr True, s')"
  shows "\<exists>content rendered fs3 s3 s4.
           read_file (files s) (template_file_of self t) = Inr content \<and>
           str_format (python w) content (template_kwargs pn an ae) = Inr rendered \<and>
           write_file (p @ [''pyproject.toml'']) rendered (files s) = Inr fs3 \<and>
           files s3 = fs3 \<and>
           create_additional_files w p t pn s3 = (Inr (), s4) \<and> files s' = files s4"
proof (cases "read_file (files s) (template_file_of self t)")
  case (Inl e1)
  with assms show ?thesis by (simp add: render_and_write_def)
next
  case c: (Inr content)
  show ?thesis
  proof (cases "str_format (python w) content (template_kwargs pn an ae)")
    case (Inl e2)
    with assms c show ?thesis by (simp add: render_and_write_def)
  next
    case r: (Inr rendered)
    show ?thesis
    proof (cases "write_file (p @ [''pyproject.toml'']) rendered (files s)")
      case (Inl e3)
      with assms c r show ?thesis by (simp add: render_and_write_def joinpath_pyproject)
    next
      case f: (Inr fs3)
      obtain r4 s4 where ca: "create_additional_files w p t pn (s\<lparr>files := fs3\<rparr>) = (r4, s4)"
        by (cases "create_additional_files w p t pn (s\<lparr>files := fs3\<rparr>)")
      have "r4 = Inr () \<and> files s' = files s4"
      proof (cases r4)
        case (Inl e4)
        with assms c r f ca show ?thesis
          by (simp add: render_and_write_def joinpath_pyproject)
      next
        case (Inr u4)
        with assms c r f ca have "files s' = files s4"
          by (auto simp: render_and_write_def joinpath_pyproject files_say)
        with Inr show ?thesis by simp
      qed
      with c r f ca show ?thesis
        by (intro exI [of _ content] exI [of _ rendered] exI [of _ fs3]
              exI [of _ "s\<lparr>files := fs3\<rparr>"] exI [of _ s4]) simp
    qed
  qed
qed

lemma try_block_True:
  assumes "try_block w self pn t p an ae s = (Inr True, s')"
  shows "\<exists>fs2 s2. uv_init w p (files s) = (None, fs2) \<and> files s2 = fs2 \<and>
           render_and_write w self pn t p an ae s2 = (Inr True, s')"
proof (cases "uv_init w p (files s)")
  case (Pair x fs2)
  show ?thesis
  proof (cases x)
    case (Some e)
    with Pair assms show ?thesis by (simp add: try_block_def)
  next
    case None
    show ?thesis
    proof (cases "path_exists fs2 (template_file_of self t)")
      case False
      with Pair None assms show ?thesis
        by (auto simp: try_block_def Let_def split: option.splits prod.splits)
    next
      case True
      with Pair None assms show ?thesis
        by (intro exI [of _ fs2] exI [of _ "s\<lparr>files := fs2, cmds := cmds s @ [UvInit p]\<rparr>"])
           (simp add: try_block_def Let_def)
    qed
  qed
qed

lemma create_project_True:
  assumes "create_project w self pn t td a e s = (Inr True, s')"
  shows "\<exists>fs1 s1.
           \<not> path_exists (files s) (resolve_project_path w pn td) \<and>
           pathlib_mkdir True False (resolve_project_path w pn td) (files s) = (None, fs1) \<and>
           files s1 = fs1 \<and>
           try_block w self pn t (resolve_project_path w pn td) (resolve_author_name w a)
             (resolve_author_email e (resolve_author_name w a)) s1 = (Inr True, s')"
proof (cases "path_exists (files s) (resolve_project_path w pn td)")
  case True
  with assms show ?thesis by (simp add: create_project_def Let_def)
next
  case ne: False
  obtain x fs1 where mk: "pathlib_mkdir True False (resolve_project_path w pn td) (files s) = (x, fs1)"
    by (cases "pathlib_mkdir True False (resolve_project_path w pn td) (files s)")
  show ?thesis
  proof (cases x)
    case (Some ex)
    with ne mk assms show ?thesis by (simp add: create_project_def Let_def)
  next
    case None
    obtain r s2 where tb: "try_block w self pn t (resolve_project_path w pn td)
        (resolve_author_name w a) (resolve_author_email e (resolve_author_name w a))
        (s\<lparr>files := fs1\<rparr>) = (r, s2)"
      by (cases "try_block w self pn t (resolve_project_path w pn td)
        (resolve_author_name w a) (resolve_author_email e (resolve_author_name w a))
        (s\<lparr>files := fs1\<rparr>)")
    from ne mk None tb assms have "r = Inr True \<and> s2 = s'"
      by (cases r) (auto simp: create_project_def Let_def handle_exception_not_True)
    with ne mk None tb show ?thesis
      by (intro exI [of _ fs1] exI [of _ "s\<lparr>files := fs1\<rparr>"]) simp
  qed
qed

text \<open>What a successful run leaves in the project.\<close>

lemma create_project_success:
  assumes "create_project w self pn t td a e s = (Inr True, s')"
  shows "\<exists>fs1 fs2 content rendered.
           pathlib_mkdir True False (resolve_project_path w pn td) (files s) = (None, fs1) \<and>
           uv_init w (resolve_project_path w pn td) fs1 = (None, fs2) \<and>
           read_file fs2 (template_file_of self t) = Inr content \<and>
           str_format (python w) content
             (template_kwargs pn (resolve_author_name w a)
                (resolve_author_email e (resolve_author_name w a))) = Inr rendered \<and>
           node_at (files s') (resolve_project_path w pn td @ [''pyproject.toml'']) =
             Some (File rendered) \<and>
           (t = ''web'' \<longrightarrow>
              node_at (files s') (starter_file (resolve_project_path w pn td) pn ''main.py'') =
                Some (File main_content)) \<and>
           (t = ''cli'' \<longrightarrow>
              node_at (files s') (starter_file (resolve_project_path w pn td) pn ''cli.py'') =
                Some (File cli_content))"
proof -
  let ?p = "resolve_project_path w pn td"
  let ?an = "resolve_author_name w a"
  let ?ae = "resolve_author_email e ?an"
  let ?pre = "''.pre-commit-config.yaml''"
  from create_project_True [OF assms] obtain fs1 s1 where
    mk: "pathlib_mkdir True False ?p (files s) = (None, fs1)" and s1: "files s1 = fs1" and
    tb: "try_block w self pn t ?p ?an ?ae s1 = (Inr True, s')"
    by blast
  from try_block_True [OF tb] s1 obtain fs2 s2 where
    uv: "uv_init w ?p fs1 = (None, fs2)" and s2: "files s2 = fs2" and
    rw: "render_and_write w self pn t ?p ?an ?ae s2 = (Inr True, s')"
    by auto
  from render_and_write_True [OF rw] s2 obtain content rendered fs3 s3 s4 where
    rd: "read_file fs2 (template_file_of self t) = Inr content" and
    fm: "str_format (python w) content (template_kwargs pn ?an ?ae) = Inr rendered" and
    wr: "write_file (?p @ [''pyproject.toml'']) rendered fs2 = Inr fs3" and
    s3: "files s3 = fs3" and
    ca: "create_additional_files w ?p t pn s3 = (Inr (), s4)" and s4: "files s' = files s4"
    by auto
  from create_additional_files_Inr [OF ca] s3 obtain fs4 d c where
    ws: "write_starter ?p t pn fs3 = Inr fs4" and
    wq: "write_file (d @ [?pre]) c fs4 = Inr (files s4)"
    by auto
  have q1: "arrival [] (?p @ [''pyproject.toml'']) \<noteq> arrival [] (d @ [?pre])"
    by (rule arrival_neq) simp_all
  have q2: "arrival [] (starter_file ?p pn ''main.py'') \<noteq> arrival [] (d @ [?pre])"
    unfolding starter_file_def joinpath_main_py by (rule arrival_neq) simp_all
  have q3: "arrival [] (starter_file ?p pn ''cli.py'') \<noteq> arrival [] (d @ [?pre])"
    unfolding starter_file_def joinpath_cli_py by (rule arrival_neq) simp_all
  have m1: "arrival [] (?p @ [''pyproject.toml'']) \<noteq> arrival [] (starter_file ?p pn ''main.py'')"
    unfolding starter_file_def joinpath_main_py by (rule arrival_neq) simp_all
  have m2: "arrival [] (?p @ [''pyproject.toml'']) \<noteq> arrival [] (starter_file ?p pn ''cli.py'')"
    unfolding starter_file_def joinpath_cli_py by (rule arrival_neq) simp_all
  have n3: "node_at fs3 (?p @ [''pyproject.toml'']) = Some (File rendered)"
    using wr by (rule write_file_node_at_same)
  have n4: "node_at fs4 (?p @ [''pyproject.toml'']) = Some (File rendered)"
  proof (cases "t = ''web''")
    case True
    with ws have "write_file (starter_file ?p pn ''main.py'') main_content fs3 = Inr fs4"
      by (simp add: write_starter_def)
    from write_file_node_at_other [OF this m1] n3 show ?thesis by simp
  next
    case nw: False
    show ?thesis
    proof (cases "t = ''cli''")
      case True
      with ws nw have "write_file (starter_file ?p pn ''cli.py'') cli_content fs3 = Inr fs4"
        by (simp add: write_starter_def)
      from write_file_node_at_other [OF this m2] n3 show ?thesis by simp
    next
      case False
      with ws nw n3 show ?thesis by (simp add: write_starter_def)
    qed
  qed
  have manifest: "node_at (files s') (?p @ [''pyproject.toml'']) = Some (File rendered)"
    using write_file_node_at_other [OF wq q1] n4 s4 by simp
  have web: "node_at (files s') (starter_file ?p pn ''main.py'') = Some (File main_content)"
    if "t = ''web''"
  proof -
    from ws that have "write_file (starter_file ?p pn ''main.py'') main_content fs3 = Inr fs4"
      by (simp add: write_starter_def)
    then have "node_at fs4 (starter_file ?p pn ''main.py'') = Some (File main_content)"
      by (rule write_file_node_at_same)
    then show ?thesis using write_file_node_at_other [OF wq q2] s4 by simp
  qed
  have cli: "node_at (files s') (starter_file ?p pn ''cli.py'') = Some (File cli_content)"
    if "t = ''cli''"
  proof -
    from ws that have "write_file (starter_file ?p pn ''cli.py'') cli_content fs3 = Inr fs4"
      by (simp add: write_starter_def)
    then have "node_at fs4 (starter_file ?p pn ''cli.py'') = Some (File cli_content)"
      by (rule write_file_node_at_same)
    then show ?thesis using write_file_node_at_other [OF wq q3] s4 by simp
  qed
  from mk uv rd fm manifest web cli show ?thesis by blast
qed

subsection \<open>The template store\<close>

lemma create_custom_template_is_dir:
  "is_dir (files (snd (create_custom_template self n c s))) q = is_dir (files s) q"
proof (cases "write_file (template_file_of self n) c (files s)")
  case (Inl e)
  then show ?thesis by (simp add: create_custom_template_def)
next
  case (Inr fs')
  from write_file_is_dir [OF Inr, of q] Inr show ?thesis
    by (simp add: create_custom_template_def files_say)
qed

lemma run_writes_is_dir: "is_dir (files (run_writes self ws s)) q = is_dir (files s) q"
proof (induction ws arbitrary: s)
  case Nil
  show ?case by simp
next
  case (Cons a ws)
  obtain n c where a: "a = (n, c)" by (cases a)
  show ?case
    unfolding a run_writes.simps Cons.IH by (rule create_custom_template_is_dir)
qed

lemma reset_one_basic:
  assumes "is_dir (files s) (template_dir self)"
    and "\<not> is_dir (files s) (template_file_of self ''basic'')"
  shows "\<exists>fs'. reset_one self ''basic'' s =
                 (Inr (), s\<lparr>files := fs', out := out s @ [ResetOne ''basic'']\<rparr>) \<and>
               node_at fs' (template_file_of self ''basic'') = Some (File get_basic_template)"
proof -
  let ?f = "template_file_of self ''basic''"
  let ?fs' = "AList.update (arrival [] ?f) (File get_basic_template) (files s)"
  have w: "write_file ?f get_basic_template (files s) = Inr ?fs'"
    using assms unfolding template_file_of_basic by (rule write_file_ok)
  then have "node_at ?fs' ?f = Some (File get_basic_template)"
    by (rule write_file_node_at_same)
  with w show ?thesis
    by (intro exI [of _ ?fs']) (simp add: reset_one_def default_templates_def say_def)
qed

subsection \<open>The starter files\<close>



subsection \<open>Concrete runs\<close>

text \<open>The definitions that a concrete run unfolds, and two runs in the example world.\<close>

lemmas fs_defs = path_exists_def node_at_def is_dir_def is_file_def read_file_def write_file_def
  os_mkdir_def rmtree_def shutil_copy_def samefile_def basename_def joinpath_def path_parts_def
  is_absolute_def resolve_def entry_at_def step_def pathlib_mkdir.simps


lemmas run_defs = create_project_def Let_def try_block_def render_and_write_def
  create_additional_files_def write_starter_def write_pre_commit_def handle_exception_def
  say_def template_file_of_def starter_file_def resolve_author_name_def
  resolve_author_email_def resolve_project_path_def str_lower_def lower_char_def
  upper_case_def lower_case_def replace_space_dot_def list_templates_def glob_toml_def stem_def

lemmas example_defs = example_lib_def example_world_def failing_world_def example_self_def
  example_state_def

lemma example_basic_run:
  "create_project example_world example_self ''myapp'' ''basic'' None None None example_state =
     (Inr True,
      \<lparr>files = files example_state @
         [([''work'', ''myapp''], Dir),
          ([''work'', ''myapp'', ''src''], Dir),
          ([''work'', ''myapp'', ''src'', ''myapp''], Dir),
          ([''work'', ''myapp'', ''pyproject.toml''],
           File (basic_manifest ''myapp'' ''Ada L'' ''ada.l@example.com'')),
          ([''work'', ''myapp'', ''.pre-commit-config.yaml''], File pre_commit_content)],
       out = [WarnPreCommitMissing, CreatedAdditionalFiles,
              SuccessCreated ''myapp'' ''basic'', ProjectLocation [''work'', ''myapp''],
              NextSteps, HintCd ''myapp'', HintUvSync],
       cmds = [UvInit [''work'', ''myapp'']]\<rparr>)"
  by (simp add: run_defs fs_defs example_defs render_basic_template)


section \<open>The claims\<close>

text \<open>
  In the statements \<open>w\<close> is the world, \<open>self\<close> the object with its template directory,
  \<open>s\<close> the state before the call and \<open>P\<close> the project path that \<^verbatim>\<open>create_project\<close>
  computes.  The concrete runs take place in the example world.
\<close>



text \<open>
  Claim C2.  When the target path already exists, \<^verbatim>\<open>create_project\<close> returns
  \<^verbatim>\<open>False\<close> and only reports that the directory exists: the file system is the one
  it was called with, so nothing is created and the contents of the target are untouched,
  and no external command has run.  The path exists when the operating system finds an
  entry at it, also through \<^verbatim>\<open>..\<close>; the two runs below have the targets \<^verbatim>\<open>/work/..\<close> and
  \<^verbatim>\<open>/work/../home\<close>.
\<close>

theorem create_project_already_exists:
  assumes "path_exists (files s) (resolve_project_path w project_name target_dir)"
  shows "create_project w self project_name template target_dir author_name author_email s =
           (Inr False,
            s\<lparr>out := out s @
                   [ErrAlreadyExists (resolve_project_path w project_name target_dir)]\<rparr>) \<and>
         files (snd (create_project w self project_name template target_dir author_name
                       author_email s)) = files s \<and>
         cmds (snd (create_project w self project_name template target_dir author_name
                      author_email s)) = cmds s"
  using assms by (simp add: create_project_def Let_def say_def)

theorem create_project_already_exists_witness:
  "resolve_project_path example_world ''..'' None = [''work'', ''..''] \<and>
   path_exists (files example_state) [''work'', ''..''] \<and>
   create_project example_world example_self ''..'' ''basic'' None None None example_state =
     (Inr False, example_state\<lparr>out := [ErrAlreadyExists [''work'', ''..'']]\<rparr>) \<and>
   resolve_project_path example_world ''demo'' (Some ''../home'') = [''work'', ''..'', ''home''] \<and>
   path_exists (files example_state) [''work'', ''..'', ''home''] \<and>
   create_project example_world example_self ''demo'' ''basic'' (Some ''../home'') None None
       example_state =
     (Inr False, example_state\<lparr>out := [ErrAlreadyExists [''work'', ''..'', ''home'']]\<rparr>)"
proof -
  have p1: "resolve_project_path example_world ''..'' None = [''work'', ''..'']"
    by (simp add: resolve_project_path_def fs_defs example_defs)
  have p2: "resolve_project_path example_world ''demo'' (Some ''../home'') =
              [''work'', ''..'', ''home'']"
    by (simp add: resolve_project_path_def fs_defs example_defs)
  have h1: "path_exists (files example_state) (resolve_project_path example_world ''..'' None)"
    unfolding p1 by (simp add: fs_defs example_defs)
  have h2: "path_exists (files example_state)
              (resolve_project_path example_world ''demo'' (Some ''../home''))"
    unfolding p2 by (simp add: fs_defs example_defs)
  have o: "out example_state = []" by (simp add: example_state_def)
  from create_project_already_exists [OF h1, of example_self "''basic''" None None]
    create_project_already_exists [OF h2, of example_self "''basic''" None None]
    h1 h2 p1 p2 o
  show ?thesis by simp
qed

text \<open>
  Claim C3.  When the project path does not exist, its directory is created, the
  bootstrap command succeeds and leaves that directory in place, and the store has no file
  for the template, then \<^verbatim>\<open>create_project\<close> reports that the template was not found,
  reports the names that \<^verbatim>\<open>list_templates\<close> finds, removes the project directory with
  \<^verbatim>\<open>shutil.rmtree\<close>, which succeeds, and returns \<^verbatim>\<open>False\<close>; afterwards nothing exists
  at the project path.
\<close>

theorem create_project_template_not_found:
  assumes "P = resolve_project_path w project_name target_dir"
    and "\<not> path_exists (files s) P"
    and "pathlib_mkdir True False P (files s) = (None, fs1)"
    and "uv_init w P fs1 = (None, fs2)"
    and "is_dir fs2 P"
    and "\<not> path_exists fs2 (template_file_of self template)"
  shows "\<exists>fs3. create_project w self project_name template target_dir author_name author_email s =
           (Inr False,
            s\<lparr>files := fs3,
              out := out s @ [ErrTemplateNotFound template,
                              AvailableTemplates (list_templates self fs2)],
              cmds := cmds s @ [UvInit P]\<rparr>) \<and>
         rmtree P fs2 = (None, fs3) \<and> \<not> path_exists fs3 P"
proof -
  let ?fs3 = "filter (\<lambda>(k, n). \<not> prefix (arrival [] P) k) fs2"
  from pathlib_mkdir_created [OF assms(3)] have cl: "clear_of (arrival [] P) P" ..
  have rm: "rmtree P fs2 = (None, ?fs3)" using assms(5) cl by (rule rmtree_ok)
  have gone: "\<not> path_exists ?fs3 P"
    using removed_absent [OF cl, of fs2] by (simp add: path_exists_def)
  have run: "create_project w self project_name template target_dir author_name author_email s =
           (Inr False,
            s\<lparr>files := ?fs3,
              out := out s @ [ErrTemplateNotFound template,
                              AvailableTemplates (list_templates self fs2)],
              cmds := cmds s @ [UvInit P]\<rparr>)"
    using assms(1,2,3,4,6) rm
    by (simp add: create_project_def Let_def try_block_def say_def)
  from run rm gone show ?thesis by blast
qed

theorem create_project_template_not_found_witness:
  "\<not> path_exists (files example_state) [''work'', ''x''] \<and>
   create_project example_world example_self ''x'' ''missing'' None None None example_state =
     (Inr False,
      example_state\<lparr>out := [ErrTemplateNotFound ''missing'',
                            AvailableTemplates [''basic'', ''web'', ''licensed'']],
                    cmds := [UvInit [''work'', ''x'']]\<rparr>)"
proof -
  let ?P = "[''work'', ''x'']"
  let ?fs1 = "files example_state @ [(?P, Dir)]"
  let ?fs2 = "?fs1 @ [(?P @ [''src''], Dir), (?P @ [''src'', ''x''], Dir)]"
  have p: "?P = resolve_project_path example_world ''x'' None"
    by (simp add: resolve_project_path_def fs_defs example_defs)
  have h1: "\<not> path_exists (files example_state) ?P"
    by (simp add: fs_defs example_defs)
  have h2: "pathlib_mkdir True False ?P (files example_state) = (None, ?fs1)"
    by (simp add: fs_defs example_defs)
  have h3: "uv_init example_world ?P ?fs1 = (None, ?fs2)"
    by (simp add: fs_defs example_defs)
  have h4: "is_dir ?fs2 ?P"
    by (simp add: fs_defs example_defs)
  have h5: "\<not> path_exists ?fs2 (template_file_of example_self ''missing'')"
    by (simp add: fs_defs example_defs template_file_of_def)
  have l: "list_templates example_self ?fs2 = [''basic'', ''web'', ''licensed'']"
    by (simp add: list_templates_def glob_toml_def stem_def suffix_def fs_defs example_defs)
  have r: "rmtree ?P ?fs2 = (None, files example_state)"
    by (simp add: fs_defs example_defs)
  have e: "example_state\<lparr>files := files example_state, out := out example_state @ ms,
             cmds := cmds example_state @ cs\<rparr> = example_state\<lparr>out := ms, cmds := cs\<rparr>"
    for ms cs by (simp add: example_state_def)
  from create_project_template_not_found [OF p h1 h2 h3 h4 h5, of None None]
  show ?thesis
    unfolding l r using h1 e by auto
qed

text \<open>
  Claim C4.  Rendering is not the identity on every body without the three markers: a
  doubled brace is written once, and any other brace is a replacement field or an error.
  What holds is that a body without any brace is rendered unchanged.
\<close>

theorem rendering_without_braces_is_identity:
  assumes "CHR ''{'' \<notin> set body" and "CHR ''}'' \<notin> set body"
  shows "str_format lib body kwargs = Inr body"
proof -
  have "plain body" using assms by (auto simp: plain_def list_all_iff)
  then show ?thesis by (rule str_format_plain)
qed

theorem rendering_without_braces_is_identity_witness:
  "CHR ''{'' \<notin> set ''name = demo'' \<and> CHR ''}'' \<notin> set ''name = demo'' \<and>
   str_format example_lib ''name = demo'' (template_kwargs ''p'' ''a'' ''e'') =
     Inr ''name = demo''"
proof -
  have h1: "CHR ''{'' \<notin> set ''name = demo''" by simp
  have h2: "CHR ''}'' \<notin> set ''name = demo''" by simp
  from rendering_without_braces_is_identity [OF h1 h2] h1 h2 show ?thesis by blast
qed

text \<open>
  A body that has none of the three markers and is changed by the rendering: each doubled
  brace becomes a single one.
\<close>

theorem rendering_changes_doubled_braces:
  "str_format example_lib ''point = {{1, 2}}'' (template_kwargs ''p'' ''a'' ''e'') =
     Inr ''point = {1, 2}'' \<and>
   str_format example_lib ''point = {{1, 2}}'' (template_kwargs ''p'' ''a'' ''e'') \<noteq>
     Inr ''point = {{1, 2}}''"
  by (simp add: str_format_def numeral_2_eq_2)

text \<open>
  Claim C5.  Let \<open>name\<close> and \<open>email\<close> be the author values that a successful
  \<^verbatim>\<open>create_project\<close> with the template \<^verbatim>\<open>basic\<close> uses.  Without an author name,
  \<open>name\<close> is the environment variable \<^verbatim>\<open>USER\<close>, or \<^verbatim>\<open>Your Name\<close> when the variable
  is not set.  Without an author email, \<open>email\<close> is \<open>name\<close> in lower case with every space
  replaced by a dot, followed by \<^verbatim>\<open>@example.com\<close>.  When the store holds the built-in body
  for \<^verbatim>\<open>basic\<close>, the manifest written to \<^verbatim>\<open>pyproject.toml\<close> is that body with the
  project name, \<open>name\<close> and \<open>email\<close> in the place of the three markers and each doubled
  brace written once.
\<close>

theorem default_author_and_basic_manifest:
  assumes "P = resolve_project_path w project_name target_dir"
    and "name = resolve_author_name w author_name"
    and "email = resolve_author_email author_email name"
    and "pathlib_mkdir True False P (files s) = (None, fs1)"
    and "uv_init w P fs1 = (None, fs2)"
    and "read_file fs2 (template_file_of self ''basic'') = Inr get_basic_template"
    and "create_project w self project_name ''basic'' target_dir author_name author_email s =
           (Inr True, s')"
  shows "(author_name = None \<longrightarrow>
            name = (case env_USER w of Some u \<Rightarrow> u | None \<Rightarrow> ''Your Name'')) \<and>
         (author_email = None \<longrightarrow>
            email = replace_space_dot (str_lower name) @ ''@example.com'') \<and>
         str_format (python w) get_basic_template (template_kwargs project_name name email) =
           Inr (basic_manifest project_name name email) \<and>
         read_file (files s') (P @ [''pyproject.toml'']) =
           Inr (basic_manifest project_name name email)"
proof -
  have n: "name = (case env_USER w of Some u \<Rightarrow> u | None \<Rightarrow> ''Your Name'')"
    if "author_name = None"
    using assms(2) that by (simp add: resolve_author_name_def)
  have e: "email = replace_space_dot (str_lower name) @ ''@example.com''"
    if "author_email = None"
    using assms(3) that by (simp add: resolve_author_email_def)
  from create_project_success [OF assms(7)] assms(1,2,3,4,5,6)
  have "\<exists>rendered.
          str_format (python w) get_basic_template (template_kwargs project_name name email) =
            Inr rendered \<and>
          node_at (files s') (P @ [''pyproject.toml'']) = Some (File rendered)"
    by auto
  then have "node_at (files s') (P @ [''pyproject.toml'']) =
               Some (File (basic_manifest project_name name email))"
    by (auto simp: render_basic_template)
  then have "read_file (files s') (P @ [''pyproject.toml'']) =
               Inr (basic_manifest project_name name email)"
    by (simp add: read_file_Inr_iff)
  with n e show ?thesis by (simp add: render_basic_template)
qed

theorem default_author_and_basic_manifest_witness:
  "resolve_author_name example_world None = ''Ada L'' \<and>
   resolve_author_email None ''Ada L'' = ''ada.l@example.com'' \<and>
   fst (create_project example_world example_self ''myapp'' ''basic'' None None None
          example_state) = Inr True \<and>
   read_file
     (files (snd (create_project example_world example_self ''myapp'' ''basic'' None None None
                    example_state)))
     [''work'', ''myapp'', ''pyproject.toml''] =
     Inr (basic_manifest ''myapp'' ''Ada L'' ''ada.l@example.com'')"
proof -
  let ?P = "[''work'', ''myapp'']"
  let ?fs1 = "files example_state @ [(?P, Dir)]"
  let ?fs2 = "?fs1 @ [(?P @ [''src''], Dir), (?P @ [''src'', ''myapp''], Dir)]"
  obtain s' where run:
    "create_project example_world example_self ''myapp'' ''basic'' None None None
       example_state = (Inr True, s')"
    using example_basic_run by blast
  have p: "?P = resolve_project_path example_world ''myapp'' None"
    by (simp add: resolve_project_path_def fs_defs example_defs)
  have n: "''Ada L'' = resolve_author_name example_world None"
    by (simp add: run_defs example_defs)
  have e: "''ada.l@example.com'' = resolve_author_email None ''Ada L''"
    by (simp add: run_defs)
  have h2: "pathlib_mkdir True False ?P (files example_state) = (None, ?fs1)"
    by (simp add: fs_defs example_defs)
  have h3: "uv_init example_world ?P ?fs1 = (None, ?fs2)"
    by (simp add: fs_defs example_defs)
  have h4: "read_file ?fs2 (template_file_of example_self ''basic'') = Inr get_basic_template"
    by (simp add: fs_defs example_defs template_file_of_def)
  from default_author_and_basic_manifest [OF p n e h2 h3 h4 run]
  have r: "read_file (files s') (?P @ [''pyproject.toml'']) =
             Inr (basic_manifest ''myapp'' ''Ada L'' ''ada.l@example.com'')"
    by blast
  show ?thesis using n [symmetric] e [symmetric] run r by simp
qed

text \<open>
  Claim C6.  Let the template directory exist and let the file of no built-in template
  be a directory.  After any sequence of writes to the store, resetting a built-in
  template succeeds and the template then reads as its built-in body, through
  \<^verbatim>\<open>open\<close> and through \<^verbatim>\<open>show_template\<close>; resetting \<^verbatim>\<open>all\<close> does this for every
  built-in template; and a reset for any other name only reports that the template does
  not exist.
\<close>

theorem reset_restores_canonical_body:
  assumes "is_dir (files s0) (template_dir self)"
    and "\<forall>(name, body) \<in> set default_templates. \<not> is_dir (files s0) (template_file_of self name)"
    and "s = run_writes self ws s0"
  shows "(\<forall>(name, body) \<in> set default_templates.
            \<exists>s'. reset_default_template self name s = (Inr (), s') \<and>
                 read_file (files s') (template_file_of self name) = Inr body \<and>
                 show_template self name s' =
                   (Inr (), say [TemplateHeader name, Rule, Content body] s')) \<and>
         (\<exists>s'. reset_default_template self ''all'' s = (Inr (), s') \<and>
               (\<forall>(name, body) \<in> set default_templates.
                  read_file (files s') (template_file_of self name) = Inr body)) \<and>
         (\<forall>name. name \<noteq> ''all'' \<and> name \<notin> set (map fst default_templates) \<longrightarrow>
            reset_default_template self name s = (Inr (), say [ErrDoesNotExist name] s))"
proof -
  let ?f = "template_file_of self ''basic''"
  have d: "is_dir (files s) (template_dir self)"
    using assms(1,3) by (simp add: run_writes_is_dir)
  have nd: "\<not> is_dir (files s) ?f"
    using assms(2,3) by (simp add: run_writes_is_dir default_templates_def)
  from reset_one_basic [OF d nd] obtain fs' where
    one: "reset_one self ''basic'' s =
            (Inr (), s\<lparr>files := fs', out := out s @ [ResetOne ''basic'']\<rparr>)" and
    nf: "node_at fs' ?f = Some (File get_basic_template)"
    by blast
  let ?s' = "s\<lparr>files := fs', out := out s @ [ResetOne ''basic'']\<rparr>"
  have rd: "read_file (files ?s') ?f = Inr get_basic_template"
    using nf by (simp add: read_file_Inr_iff)
  have sh: "show_template self ''basic'' ?s' =
              (Inr (), say [TemplateHeader ''basic'', Rule, Content get_basic_template] ?s')"
    using rd nf by (simp add: show_template_def path_exists_def)
  have a: "\<exists>s'. reset_default_template self ''basic'' s = (Inr (), s') \<and>
             read_file (files s') ?f = Inr get_basic_template \<and>
             show_template self ''basic'' s' =
               (Inr (), say [TemplateHeader ''basic'', Rule, Content get_basic_template] s')"
    using one rd sh by (intro exI [of _ ?s']) (simp add: reset_default_template_def)
  have b: "\<exists>s'. reset_default_template self ''all'' s = (Inr (), s') \<and>
             read_file (files s') ?f = Inr get_basic_template"
    using one rd
    by (intro exI [of _ "say [ResetAll] ?s'"])
       (simp add: reset_default_template_def default_templates_def files_say)
  have c: "reset_default_template self name s = (Inr (), say [ErrDoesNotExist name] s)"
    if "name \<noteq> ''all''" "name \<notin> set (map fst default_templates)" for name
    using that by (simp add: reset_default_template_def reset_one_def default_templates_def)
  from a b c show ?thesis by (simp add: default_templates_def)
qed

theorem reset_restores_canonical_body_witness:
  "is_dir (files example_state) (template_dir example_self) \<and>
   read_file
     (files (run_writes example_self [(''basic'', ''changed''), (''extra'', ''{x}'')]
               example_state))
     (template_file_of example_self ''basic'') = Inr ''changed'' \<and>
   (\<exists>s'. reset_default_template example_self ''basic''
            (run_writes example_self [(''basic'', ''changed''), (''extra'', ''{x}'')]
               example_state) = (Inr (), s') \<and>
         read_file (files s') (template_file_of example_self ''basic'') =
           Inr get_basic_template)"
proof -
  let ?ws = "[(''basic'', ''changed''), (''extra'', ''{x}'')]"
  have h1: "is_dir (files example_state) (template_dir example_self)"
    by (simp add: fs_defs example_defs)
  have h2: "\<forall>(name, body) \<in> set default_templates.
              \<not> is_dir (files example_state) (template_file_of example_self name)"
    by (simp add: default_templates_def fs_defs example_defs template_file_of_def)
  have w: "read_file (files (run_writes example_self ?ws example_state))
             (template_file_of example_self ''basic'') = Inr ''changed''"
    by (simp add: create_custom_template_def template_file_of_def say_def fs_defs example_defs)
  from reset_restores_canonical_body [OF h1 h2 refl, of ?ws]
  have "\<exists>s'. reset_default_template example_self ''basic''
            (run_writes example_self ?ws example_state) = (Inr (), s') \<and>
         read_file (files s') (template_file_of example_self ''basic'') =
           Inr get_basic_template"
    by (simp add: default_templates_def) blast
  with h1 w show ?thesis by blast
qed

text \<open>
  Claim C7.  Let the project directory be created and let the bootstrap command not
  replace it by a regular file.  When the command exits with a non-zero status,
  \<^verbatim>\<open>create_project\<close> reports the failure of \<^verbatim>\<open>uv init\<close>, returns \<^verbatim>\<open>False\<close> and
  leaves nothing at the project path.  And whatever happens after the directory was
  created, \<^verbatim>\<open>create_project\<close> raises no exception, and when it returns \<^verbatim>\<open>False\<close>
  nothing exists at the project path.
\<close>

theorem create_project_bootstrap_failure:
  assumes "P = resolve_project_path w project_name target_dir"
    and "\<not> path_exists (files s) P"
    and "pathlib_mkdir True False P (files s) = (None, fs1)"
    and "\<not> is_file (snd (uv_init w P fs1)) P"
  shows "(fst (uv_init w P fs1) = Some CalledProcessError \<longrightarrow>
            (\<exists>s'. create_project w self project_name template target_dir author_name
                     author_email s = (Inr False, s') \<and>
                  out s' = out s @ [ErrUvInit CalledProcessError] \<and>
                  cmds s' = cmds s @ [UvInit P] \<and>
                  \<not> path_exists (files s') P)) \<and>
         (\<exists>b s'. create_project w self project_name template target_dir author_name
                    author_email s = (Inr b, s') \<and>
                 (\<not> b \<longrightarrow> \<not> path_exists (files s') P))"
proof -
  from pathlib_mkdir_created [OF assms(3)] have cl: "clear_of (arrival [] P) P" ..
  have first: "\<exists>s'. create_project w self project_name template target_dir author_name
                     author_email s = (Inr False, s') \<and>
                  out s' = out s @ [ErrUvInit CalledProcessError] \<and>
                  cmds s' = cmds s @ [UvInit P] \<and>
                  \<not> path_exists (files s') P"
    if f: "fst (uv_init w P fs1) = Some CalledProcessError"
  proof -
    obtain fs2 where uv: "uv_init w P fs1 = (Some CalledProcessError, fs2)"
      using f by (cases "uv_init w P fs1") auto
    let ?s2 = "s\<lparr>files := fs2, cmds := cmds s @ [UvInit P]\<rparr>"
    have nf: "\<not> is_file (files ?s2) P" using assms(4) uv by simp
    have cp: "create_project w self project_name template target_dir author_name
                author_email s = handle_exception CalledProcessError P ?s2"
      using assms(1,2,3) uv by (simp add: create_project_def Let_def try_block_def)
    from handle_exception_rollback [OF nf cl, of CalledProcessError] cp show ?thesis
      by (auto simp: path_exists_def)
  qed
  have second: "\<exists>b s'. create_project w self project_name template target_dir author_name
                    author_email s = (Inr b, s') \<and>
                 (\<not> b \<longrightarrow> \<not> path_exists (files s') P)"
    using create_project_rollback [of s w project_name target_dir fs1 self template
            author_name author_email] assms
    by (simp add: path_exists_def)
  from first second show ?thesis by blast
qed

theorem create_project_bootstrap_failure_witness:
  "\<not> path_exists (files example_state) [''work'', ''x''] \<and>
   fst (uv_init failing_world [''work'', ''x''] (files example_state @ [([''work'', ''x''], Dir)])) =
     Some CalledProcessError \<and>
   (\<exists>s'. create_project failing_world example_self ''x'' ''basic'' None None None
            example_state = (Inr False, s') \<and>
         out s' = out example_state @ [ErrUvInit CalledProcessError] \<and>
         cmds s' = cmds example_state @ [UvInit [''work'', ''x'']] \<and>
         \<not> path_exists (files s') [''work'', ''x''])"
proof -
  let ?P = "[''work'', ''x'']"
  let ?fs1 = "files example_state @ [(?P, Dir)]"
  have p: "?P = resolve_project_path failing_world ''x'' None"
    by (simp add: resolve_project_path_def fs_defs example_defs)
  have h1: "\<not> path_exists (files example_state) ?P"
    by (simp add: fs_defs example_defs)
  have h2: "pathlib_mkdir True False ?P (files example_state) = (None, ?fs1)"
    by (simp add: fs_defs example_defs)
  have h3: "\<not> is_file (snd (uv_init failing_world ?P ?fs1)) ?P"
    by (simp add: fs_defs example_defs)
  have h4: "fst (uv_init failing_world ?P ?fs1) = Some CalledProcessError"
    by (simp add: failing_world_def)
  from create_project_bootstrap_failure [OF p h1 h2 h3, of example_self "''basic''" None None]
    h1 h4
  show ?thesis by blast
qed





text \<open>
  Claim C10.  A reset for a name that is neither \<^verbatim>\<open>all\<close> nor a built-in template
  only reports that the template does not exist: the file system after the call is the one
  before it.
\<close>

theorem reset_unknown_template_changes_nothing:
  assumes "template_name \<noteq> ''all''" and "template_name \<notin> set (map fst default_templates)"
  shows "reset_default_template self template_name s =
           (Inr (), s\<lparr>out := out s @ [ErrDoesNotExist template_name]\<rparr>) \<and>
         files (snd (reset_default_template self template_name s)) = files s"
  using assms
  by (simp add: reset_default_template_def reset_one_def default_templates_def say_def)

theorem reset_unknown_template_changes_nothing_witness:
  "''web'' \<noteq> ''all'' \<and> ''web'' \<notin> set (map fst default_templates) \<and>
   reset_default_template example_self ''web'' example_state =
     (Inr (), example_state\<lparr>out := out example_state @ [ErrDoesNotExist ''web'']\<rparr>) \<and>
   files (snd (reset_default_template example_self ''web'' example_state)) =
     files example_state"
proof -
  have h1: "''web'' \<noteq> ''all''" by simp
  have h2: "''web'' \<notin> set (map fst default_templates)"
    by (simp add: default_templates_def)
  from reset_unknown_template_changes_nothing [OF h1 h2, of example_self example_state] h1 h2
  show ?thesis by blast
qed

end
